theory Spec2Isabelle
  imports Complex_Main "HOL-Library.Char_ord" "HOL-Library.List_Lexorder"
begin

section \<open>Primitives and value types (gaya/checks/base.py)\<close>

datatype status = PASS | WARN | FAIL

datatype layer = UPSTREAM | STAGING | DOWNSTREAM

fun layer_value :: "layer \<Rightarrow> string" where
  "layer_value UPSTREAM = ''upstream''"
| "layer_value STAGING = ''staging''"
| "layer_value DOWNSTREAM = ''downstream''"

text \<open>
  A Python \<open>dict[str, str]\<close> is an association list in insertion order; a lookup takes
  the first entry of a key (a Python dict holds each key once). Equality of two dicts
  ignores the order: the same keys, and the same value under each key.
\<close>

type_synonym dict = "(string \<times> string) list"

definition dict_get :: "dict \<Rightarrow> string \<Rightarrow> string option" where
  "dict_get d k = map_of d k"

definition dict_keys :: "dict \<Rightarrow> string list" where
  "dict_keys d = map fst d"

definition dict_eq :: "dict \<Rightarrow> dict \<Rightarrow> bool" where
  "dict_eq a b \<longleftrightarrow>
     set (dict_keys a) = set (dict_keys b) \<and> (\<forall>k \<in> set (dict_keys a). dict_get a k = dict_get b k)"

text \<open>
  \<open>ColumnStats\<close>. The fields \<open>min_value\<close>, \<open>max_value\<close> and \<open>sample_values\<close> are read by
  no check and are left out. A Python \<open>float\<close> is a \<open>real\<close>: comparisons of floats are
  exact. The one rounding operation of the checks is the true division \<open>int / int\<close>; it
  is the parameter \<open>tdiv\<close> of every function that divides, so that what is proved holds
  for the exact quotient and for every rounding of it. Quotients stay within the range
  of a float (beyond it Python raises \<open>OverflowError\<close>).
\<close>

record column_stats =
  col_name :: string
  dtype :: string
  col_row_count :: int
  null_count :: int
  distinct_count :: int

definition null_pct :: "(int \<Rightarrow> int \<Rightarrow> real) \<Rightarrow> column_stats \<Rightarrow> real" where
  "null_pct tdiv c = (if col_row_count c = 0 then 0 else tdiv (null_count c) (col_row_count c))"

definition exact_div :: "int \<Rightarrow> int \<Rightarrow> real" where
  "exact_div a b = real_of_int a / real_of_int b"

record table_stats =
  table_name :: string
  layer :: layer
  row_count :: int
  columns :: "column_stats list"
  schema :: dict
  collected_at :: string

definition column :: "table_stats \<Rightarrow> string \<Rightarrow> column_stats option" where
  "column stats n = find (\<lambda>c. col_name c = n) (columns stats)"

definition column_names :: "table_stats \<Rightarrow> string list" where
  "column_names stats = map col_name (columns stats)"

record baseline =
  bl_table_name :: string
  bl_row_count :: int
  bl_schema :: dict
  run_at :: string
  run_count :: int

text \<open>
  An f-string is the list of its literal pieces and formatted fields: \<open>FStr\<close> a string
  field, \<open>FInt\<close> an integer, \<open>FIntComma\<close> an integer under \<open>:,\<close>, \<open>FPct\<close> a float under
  \<open>:.1%\<close>, \<open>FList\<close> a list of strings. The values of the \<open>Optional[Any]\<close> fields
  \<open>expected\<close> and \<open>actual\<close> are the ones the checks store there.
\<close>

datatype fpart = Lit string | FStr string | FInt int | FIntComma int | FPct real | FList "string list"

type_synonym fstring = "fpart list"

datatype pyval = VFloat real | VInt int | VStr string | VFmt fstring | VList "string list"

record check_result =
  check :: string
  table :: string
  result_layer :: layer
  status :: status
  message :: fstring
  result_column :: "string option"
  expected :: "pyval option"
  actual :: "pyval option"
  hint :: "string option"

text \<open>
  The builders \<open>passed\<close>, \<open>warned\<close> and \<open>failed\<close>; their keyword arguments are the four
  optional fields, in the order column, expected, actual, hint.
\<close>

definition passed ::
  "string \<Rightarrow> string \<Rightarrow> layer \<Rightarrow> fstring \<Rightarrow> string option \<Rightarrow> pyval option \<Rightarrow> pyval option \<Rightarrow>
   string option \<Rightarrow> check_result" where
  "passed c t l m col e a h =
     \<lparr>check = c, table = t, result_layer = l, status = PASS, message = m,
      result_column = col, expected = e, actual = a, hint = h\<rparr>"

definition warned ::
  "string \<Rightarrow> string \<Rightarrow> layer \<Rightarrow> fstring \<Rightarrow> string option \<Rightarrow> pyval option \<Rightarrow> pyval option \<Rightarrow>
   string option \<Rightarrow> check_result" where
  "warned c t l m col e a h =
     \<lparr>check = c, table = t, result_layer = l, status = WARN, message = m,
      result_column = col, expected = e, actual = a, hint = h\<rparr>"

definition failed ::
  "string \<Rightarrow> string \<Rightarrow> layer \<Rightarrow> fstring \<Rightarrow> string option \<Rightarrow> pyval option \<Rightarrow> pyval option \<Rightarrow>
   string option \<Rightarrow> check_result" where
  "failed c t l m col e a h =
     \<lparr>check = c, table = t, result_layer = l, status = FAIL, message = m,
      result_column = col, expected = e, actual = a, hint = h\<rparr>"

record null_config =
  null_columns :: "string list option"
  null_warn_pct :: real
  null_fail_pct :: real

definition NullConfig :: null_config where
  "NullConfig = \<lparr>null_columns = None, null_warn_pct = 0.10, null_fail_pct = 0.25\<rparr>"

record volume_change_config =
  vol_warn_pct :: real
  vol_fail_pct :: real

definition VolumeChangeConfig :: volume_change_config where
  "VolumeChangeConfig = \<lparr>vol_warn_pct = 0.20, vol_fail_pct = 0.40\<rparr>"

record row_count_config =
  min_rows :: "int option"
  max_rows :: "int option"

record required_config =
  required_columns :: "string list"

record unique_config =
  unique_columns :: "string list"

record schema_config =
  schema_expected :: dict

record schema_drift_config =
  baseline_columns :: "string list"

text \<open>The two non-ASCII characters of the messages, as their UTF-8 bytes.\<close>

definition em_dash :: string where
  "em_dash = [CHR 0xE2, CHR 0x80, CHR 0x94]"

definition rarrow :: string where
  "rarrow = [CHR 0xE2, CHR 0x86, CHR 0x92]"

section \<open>The baseline store (gaya/baseline/store.py)\<close>

text \<open>
  The store is the directory of baseline files: a map from file name to content. A
  file's content is seen through \<open>read_text\<close> and \<open>json.loads\<close>: bytes that are not UTF-8
  (\<open>NotUtf8\<close>), text that is not JSON (\<open>NotJson\<close>), a JSON value that is not an object,
  such as \<open>[]\<close>, \<open>null\<close> or \<open>5\<close> (\<open>NotObject\<close>), or an object (\<open>Object\<close>), of which the
  keys that \<open>load\<close> and \<open>save\<close> touch are kept, each absent or present. A key that is
  present holds a value of the type \<open>save\<close> writes there: an object with \<open>null\<close> or a value
  of another type under a key is not among the files of this model.

  Beside the files the store carries \<open>calls\<close>, the calls of \<open>load\<close>, of \<open>save\<close> and of the
  check functions executed so far, oldest first. The code keeps no such list; it is the
  record of what was executed, and no function reads it.
\<close>

datatype error = TypeError | UnicodeDecodeError

record json_object =
  j_table_name :: "string option"
  j_row_count :: "int option"
  j_schema :: "dict option"
  j_run_at :: "string option"
  j_run_count :: "int option"
  j_gaya_version :: "string option"

datatype file_content = NotUtf8 | NotJson | NotObject | Object json_object

datatype call = Load string | Save string | Check string

record store =
  files :: "string \<rightharpoonup> file_content"
  calls :: "call list"

definition called :: "call \<Rightarrow> store \<Rightarrow> store" where
  "called c st = st\<lparr>calls := calls st @ [c]\<rparr>"

definition GAYA_VERSION :: string where
  "GAYA_VERSION = ''0.1.0''"

definition path :: "string \<Rightarrow> string" where
  "path tname =
     map (\<lambda>c. if c = CHR ''/'' then CHR ''_'' else c)
       (map (\<lambda>c. if c = CHR ''.'' then CHR ''_'' else c) tname) @ ''.json''"

text \<open>
  \<open>load\<close>: a missing file is \<open>None\<close>; \<open>JSONDecodeError\<close> and the \<open>KeyError\<close> of a missing key
  are caught and give \<open>None\<close>. The \<open>except\<close> clause names nothing else: the
  \<open>UnicodeDecodeError\<close> of \<open>read_text\<close> and the \<open>TypeError\<close> of subscripting a value that is
  not an object with a string leave \<open>load\<close> as exceptions.
\<close>

definition load :: "store \<Rightarrow> string \<Rightarrow> error + (baseline option \<times> store)" where
  "load st tname =
     (let st1 = called (Load tname) st in
      case files st (path tname) of
        None \<Rightarrow> Inr (None, st1)
      | Some NotUtf8 \<Rightarrow> Inl UnicodeDecodeError
      | Some NotJson \<Rightarrow> Inr (None, st1)
      | Some NotObject \<Rightarrow> Inl TypeError
      | Some (Object data) \<Rightarrow>
          (case j_table_name data of None \<Rightarrow> Inr (None, st1) | Some tn \<Rightarrow>
          (case j_row_count data of None \<Rightarrow> Inr (None, st1) | Some rc \<Rightarrow>
          (case j_schema data of None \<Rightarrow> Inr (None, st1) | Some sc \<Rightarrow>
          (case j_run_at data of None \<Rightarrow> Inr (None, st1) | Some ra \<Rightarrow>
             Inr (Some \<lparr>bl_table_name = tn, bl_row_count = rc, bl_schema = sc, run_at = ra,
                        run_count = (case j_run_count data of None \<Rightarrow> 1 | Some n \<Rightarrow> n)\<rparr>,
                  st1))))))"

definition has_changed :: "baseline \<Rightarrow> table_stats \<Rightarrow> bool" where
  "has_changed b stats \<longleftrightarrow>
     bl_row_count b \<noteq> row_count stats \<or> \<not> dict_eq (bl_schema b) (schema stats)"

text \<open>
  \<open>save\<close> returns the flag and the store after it. It calls \<open>load\<close> itself. What is
  written is the object \<open>data\<close>; \<open>json.loads\<close> of \<open>json.dumps data\<close> is \<open>data\<close> again.
\<close>

definition save :: "store \<Rightarrow> table_stats \<Rightarrow> error + (bool \<times> store)" where
  "save st stats =
     (case load (called (Save (table_name stats)) st) (table_name stats) of
        Inl e \<Rightarrow> Inl e
      | Inr (existing, st1) \<Rightarrow>
          if (case existing of None \<Rightarrow> False | Some b \<Rightarrow> \<not> has_changed b stats)
          then Inr (False, st1)
          else
            let run_count = (case existing of None \<Rightarrow> 1 | Some b \<Rightarrow> run_count b + 1);
                data = \<lparr>j_table_name = Some (table_name stats),
                        j_row_count = Some (row_count stats),
                        j_schema = Some (schema stats),
                        j_run_at = Some (collected_at stats),
                        j_run_count = Some run_count,
                        j_gaya_version = Some GAYA_VERSION\<rparr>
            in Inr (True, st1\<lparr>files := (files st1)(path (table_name stats) \<mapsto> Object data)\<rparr>))"

section \<open>Completeness checks (gaya/checks/completeness.py)\<close>

text \<open>
  \<open>columns_to_check\<close>: the configured names resolved by \<open>column\<close> (a name that does not
  resolve gives \<open>None\<close>) when \<open>config.columns\<close> is truthy, else every column of the table.
  \<open>None\<close> and the empty tuple are both falsy.
\<close>

definition columns_to_check :: "table_stats \<Rightarrow> null_config \<Rightarrow> column_stats option list" where
  "columns_to_check stats config =
     (case null_columns config of
        None \<Rightarrow> map Some (columns stats)
      | Some names \<Rightarrow>
          if names \<noteq> [] then map (column stats) names else map Some (columns stats))"

definition null_rate_result ::
  "(int \<Rightarrow> int \<Rightarrow> real) \<Rightarrow> table_stats \<Rightarrow> null_config \<Rightarrow> column_stats option \<Rightarrow> check_result" where
  "null_rate_result tdiv stats config col =
     (case col of
        None \<Rightarrow>
          failed ''null_rate'' (table_name stats) (layer stats)
            [Lit ''Column specified in null check does not exist in table.'']
            (Some ''unknown'') None None
            (Some (''Check your gaya.yml '' @ em_dash @ '' column name may be misspelled.''))
      | Some c \<Rightarrow>
          let pct = null_pct tdiv c in
          if pct = 0 then
            passed ''null_rate'' (table_name stats) (layer stats)
              [Lit [CHR 0x27], FStr (col_name c), Lit (CHR 0x27 # '' has no nulls.'')]
              (Some (col_name c)) None (Some (VFloat 0)) None
          else if pct \<ge> null_fail_pct config then
            failed ''null_rate'' (table_name stats) (layer stats)
              [Lit [CHR 0x27], FStr (col_name c), Lit (CHR 0x27 # '' is ''), FPct pct,
               Lit ('' null '' @ em_dash @ '' exceeds fail threshold of ''),
               FPct (null_fail_pct config), Lit ''.'']
              (Some (col_name c)) (Some (VFmt [Lit ''< '', FPct (null_fail_pct config)]))
              (Some (VFmt [FPct pct])) None
          else if pct \<ge> null_warn_pct config then
            warned ''null_rate'' (table_name stats) (layer stats)
              [Lit [CHR 0x27], FStr (col_name c), Lit (CHR 0x27 # '' is ''), FPct pct,
               Lit ('' null '' @ em_dash @ '' above warn threshold of ''),
               FPct (null_warn_pct config), Lit ''.'']
              (Some (col_name c)) (Some (VFmt [Lit ''< '', FPct (null_warn_pct config)]))
              (Some (VFmt [FPct pct])) None
          else
            passed ''null_rate'' (table_name stats) (layer stats)
              [Lit [CHR 0x27], FStr (col_name c), Lit (CHR 0x27 # '' null rate ''), FPct pct,
               Lit '' is within threshold.'']
              (Some (col_name c)) None (Some (VFmt [FPct pct])) None)"

definition check_null_rate ::
  "(int \<Rightarrow> int \<Rightarrow> real) \<Rightarrow> table_stats \<Rightarrow> null_config \<Rightarrow> check_result list" where
  "check_null_rate tdiv stats config =
     map (null_rate_result tdiv stats config) (columns_to_check stats config)"

definition required_column_result ::
  "(int \<Rightarrow> int \<Rightarrow> real) \<Rightarrow> table_stats \<Rightarrow> string \<Rightarrow> check_result" where
  "required_column_result tdiv stats cname =
     (case column stats cname of
        None \<Rightarrow>
          failed ''required_columns'' (table_name stats) (layer stats)
            [Lit (''Required column '' @ [CHR 0x27]), FStr cname,
             Lit (CHR 0x27 # '' is missing from the table entirely.'')]
            (Some cname) None None
            (Some ''Verify the column exists in the source and hasn't been renamed.'')
      | Some c \<Rightarrow>
          if null_count c > 0 then
            failed ''required_columns'' (table_name stats) (layer stats)
              [Lit (''Required column '' @ [CHR 0x27]), FStr cname, Lit (CHR 0x27 # '' has ''),
               FIntComma (null_count c), Lit '' null(s) ('', FPct (null_pct tdiv c), Lit '' of '',
               FIntComma (row_count stats), Lit '' rows).'']
              (Some cname) (Some (VInt 0)) (Some (VInt (null_count c)))
              (Some (''This column is marked required '' @ em_dash
                     @ '' nulls here indicate an upstream issue.''))
          else
            passed ''required_columns'' (table_name stats) (layer stats)
              [Lit (''Required column '' @ [CHR 0x27]), FStr cname, Lit (CHR 0x27 # '' is complete.'')]
              (Some cname) None None None)"

definition check_required_columns ::
  "(int \<Rightarrow> int \<Rightarrow> real) \<Rightarrow> table_stats \<Rightarrow> required_config \<Rightarrow> check_result list" where
  "check_required_columns tdiv stats config =
     map (required_column_result tdiv stats) (required_columns config)"

section \<open>Uniqueness check (gaya/checks/uniqueness.py)\<close>

fun str_join :: "string \<Rightarrow> string list \<Rightarrow> string" where
  "str_join sep [] = []"
| "str_join sep [x] = x"
| "str_join sep (x # y # ys) = x @ sep @ str_join sep (y # ys)"

definition check_unique :: "table_stats \<Rightarrow> unique_config \<Rightarrow> check_result list" where
  "check_unique stats config =
     (if length (unique_columns config) = 1 then
        let cname = unique_columns config ! 0 in
        (case column stats cname of
           None \<Rightarrow>
             [failed ''unique'' (table_name stats) (layer stats)
                [Lit (''Column '' @ [CHR 0x27]), FStr cname,
                 Lit (CHR 0x27 # '' specified for uniqueness check does not exist.'')]
                (Some cname) None None
                (Some ''Check your gaya.yml for a misspelled column name.'')]
         | Some col \<Rightarrow>
             let duplicates = col_row_count col - distinct_count col in
             if duplicates > 0 then
               [failed ''unique'' (table_name stats) (layer stats)
                  [Lit [CHR 0x27], FStr cname, Lit (CHR 0x27 # '' has ''), FIntComma duplicates,
                   Lit '' duplicate value(s) across '', FIntComma (col_row_count col),
                   Lit '' rows ('', FIntComma (distinct_count col), Lit '' distinct).'']
                  (Some cname) (Some (VStr ''all distinct''))
                  (Some (VFmt [FIntComma duplicates, Lit '' duplicates'']))
                  (Some (''Duplicates in a key column usually indicate a pipeline ''
                         @ ''loading the same records more than once.''))]
             else
               [passed ''unique'' (table_name stats) (layer stats)
                  [Lit [CHR 0x27], FStr cname, Lit (CHR 0x27 # '' is fully unique (''),
                   FIntComma (distinct_count col), Lit '' distinct values).'']
                  (Some cname) None None None])
      else
        let composite_name = str_join ''|'' (unique_columns config) in
        (case column stats composite_name of
           None \<Rightarrow>
             [failed ''unique'' (table_name stats) (layer stats)
                [Lit ''Composite key uniqueness check requires columns '',
                 FList (unique_columns config),
                 Lit ('' '' @ em_dash @ '' one or more are missing from the table.'')]
                (Some composite_name) None None
                (Some ''Verify all composite key columns exist in the table.'')]
         | Some col \<Rightarrow>
             let duplicates = col_row_count col - distinct_count col in
             if duplicates > 0 then
               [failed ''unique'' (table_name stats) (layer stats)
                  [Lit ''Composite key '', FList (unique_columns config), Lit '' has '',
                   FIntComma duplicates, Lit '' duplicate combination(s) across '',
                   FIntComma (col_row_count col), Lit '' rows.'']
                  (Some composite_name) (Some (VStr ''all distinct''))
                  (Some (VFmt [FIntComma duplicates, Lit '' duplicate combinations'']))
                  (Some (''Composite key duplicates may indicate a missing deduplication ''
                         @ ''step or an unintended cross-join upstream.''))]
             else
               [passed ''unique'' (table_name stats) (layer stats)
                  [Lit ''Composite key '', FList (unique_columns config),
                   Lit '' is fully unique ('', FIntComma (distinct_count col),
                   Lit '' distinct combinations).'']
                  (Some composite_name) None None None]))"

section \<open>Volume checks (gaya/checks/volume.py)\<close>

definition check_row_count :: "table_stats \<Rightarrow> row_count_config \<Rightarrow> check_result list" where
  "check_row_count stats config =
     (let count = row_count stats;
          in_range =
            [passed ''row_count'' (table_name stats) (layer stats)
               [Lit ''Row count '', FIntComma count, Lit '' is within expected range.'']
               None None (Some (VFmt [FIntComma count])) None];
          above =
            (case max_rows config of
               None \<Rightarrow> in_range
             | Some mx \<Rightarrow>
                 if count > mx then
                   [failed ''row_count'' (table_name stats) (layer stats)
                      [Lit ''Row count '', FIntComma count, Lit '' exceeds maximum '',
                       FIntComma mx, Lit ''.'']
                      None (Some (VFmt [Lit ''<= '', FIntComma mx])) (Some (VFmt [FIntComma count]))
                      (Some ''This may indicate duplicate rows or an unintended full reload.'')]
                 else in_range)
      in case min_rows config of
           None \<Rightarrow> above
         | Some mn \<Rightarrow>
             if count < mn then
               [failed ''row_count'' (table_name stats) (layer stats)
                  [Lit ''Row count '', FIntComma count, Lit '' is below minimum '',
                   FIntComma mn, Lit ''.'']
                  None (Some (VFmt [Lit ''>= '', FIntComma mn])) (Some (VFmt [FIntComma count]))
                  (Some ''The table may not have loaded correctly or the source is empty.'')]
             else above)"

definition direction :: "int \<Rightarrow> string" where
  "direction delta = (if delta > 0 then ''increased'' else ''dropped'')"

definition sign :: "int \<Rightarrow> string" where
  "sign delta = (if delta > 0 then ''+'' else ''-'')"

definition change_pct :: "(int \<Rightarrow> int \<Rightarrow> real) \<Rightarrow> int \<Rightarrow> int \<Rightarrow> real" where
  "change_pct tdiv current previous = tdiv \<bar>current - previous\<bar> (max previous 1)"

definition check_volume_change ::
  "(int \<Rightarrow> int \<Rightarrow> real) \<Rightarrow> table_stats \<Rightarrow> volume_change_config \<Rightarrow> baseline option \<Rightarrow>
   check_result list" where
  "check_volume_change tdiv stats config baseline =
     (let current = row_count stats in
      case baseline of
        None \<Rightarrow>
          [passed ''volume_change'' (table_name stats) (layer stats)
             [Lit (''No baseline found for '' @ [CHR 0x27]), FStr (table_name stats),
              Lit (CHR 0x27 # ''. Baseline set at ''), FIntComma current,
              Lit '' rows. Run again to detect volume changes.'']
             None None (Some (VFmt [FIntComma current])) None]
      | Some b \<Rightarrow>
          let previous = bl_row_count b;
              delta = current - previous;
              pct = change_pct tdiv current previous
          in
          if pct \<ge> vol_fail_pct config then
            [failed ''volume_change'' (table_name stats) (layer stats)
               [Lit ''Row count '', FStr (direction delta), Lit '' '', FPct pct, Lit '' ('',
                FIntComma previous, Lit ('' '' @ rarrow @ '' ''), FIntComma current, Lit '', '',
                FStr (sign delta), FIntComma \<bar>delta\<bar>, Lit '' rows).'']
               None
               (Some (VFmt [Lit ''< '', FPct (vol_fail_pct config), Lit '' change'']))
               (Some (VFmt [FPct pct, Lit '' '', FStr (direction delta)]))
               (Some (if delta < 0 then
                        ''A drop this large usually means a failed upstream load ''
                        @ ''or a filter was applied unintentionally.''
                      else ''A spike this large may indicate duplicate rows or a full reload.''))]
          else if pct \<ge> vol_warn_pct config then
            [warned ''volume_change'' (table_name stats) (layer stats)
               [Lit ''Row count '', FStr (direction delta), Lit '' '', FPct pct, Lit '' ('',
                FIntComma previous, Lit ('' '' @ rarrow @ '' ''), FIntComma current, Lit '', '',
                FStr (sign delta), FIntComma \<bar>delta\<bar>, Lit '' rows).'']
               None
               (Some (VFmt [Lit ''< '', FPct (vol_warn_pct config), Lit '' change'']))
               (Some (VFmt [FPct pct, Lit '' '', FStr (direction delta)]))
               None]
          else
            [passed ''volume_change'' (table_name stats) (layer stats)
               [Lit ''Row count stable: '', FIntComma previous, Lit ('' '' @ rarrow @ '' ''),
                FIntComma current, Lit '' ('', FStr (sign delta), FIntComma \<bar>delta\<bar>,
                Lit '' rows, '', FPct pct, Lit '' change).'']
               None None (Some (VFmt [FPct pct, Lit '' change''])) None])"

section \<open>Schema checks (gaya/checks/schema.py)\<close>

text \<open>
  \<open>str.lower\<close> is the parameter \<open>lower\<close> of \<open>check_schema\<close>: Python folds every cased
  code point. \<open>ascii_lower\<close> is what it does on strings of ASCII characters.
\<close>

definition ascii_lower :: "string \<Rightarrow> string" where
  "ascii_lower s =
     map (\<lambda>c. if CHR ''A'' \<le> c \<and> c \<le> CHR ''Z'' then char_of (of_char c + (32::nat)) else c) s"

definition schema_result ::
  "(string \<Rightarrow> string) \<Rightarrow> table_stats \<Rightarrow> string \<times> string \<Rightarrow> check_result" where
  "schema_result lower stats item =
     (let cname = fst item; expected_dtype = snd item in
      case dict_get (schema stats) cname of
        None \<Rightarrow>
          failed ''schema'' (table_name stats) (layer stats)
            [Lit (''Expected column '' @ [CHR 0x27]), FStr cname, Lit (CHR 0x27 # '' (''),
             FStr expected_dtype, Lit '') is missing from the table.'']
            (Some cname) (Some (VStr expected_dtype)) None
            (Some ''Column may have been dropped or renamed upstream.'')
      | Some actual_dtype \<Rightarrow>
          if lower actual_dtype \<noteq> lower expected_dtype then
            failed ''schema'' (table_name stats) (layer stats)
              [Lit [CHR 0x27], FStr cname, Lit (CHR 0x27 # '' type mismatch: expected '' @ [CHR 0x27]),
               FStr expected_dtype, Lit (CHR 0x27 # '', found '' @ [CHR 0x27]), FStr actual_dtype,
               Lit (CHR 0x27 # ''.'')]
              (Some cname) (Some (VStr expected_dtype)) (Some (VStr actual_dtype))
              (Some (''A dtype change can silently break downstream queries. ''
                     @ ''Verify this was intentional.''))
          else
            passed ''schema'' (table_name stats) (layer stats)
              [Lit [CHR 0x27], FStr cname, Lit (CHR 0x27 # '' is '' @ [CHR 0x27]), FStr actual_dtype,
               Lit (CHR 0x27 # '' as expected.'')]
              (Some cname) (Some (VStr expected_dtype)) (Some (VStr actual_dtype)) None)"

definition check_schema ::
  "(string \<Rightarrow> string) \<Rightarrow> table_stats \<Rightarrow> schema_config \<Rightarrow> check_result list" where
  "check_schema lower stats config = map (schema_result lower stats) (schema_expected config)"

text \<open>
  \<open>check_schema_drift\<close>: the column names come from \<open>stats.columns\<close>, the baseline's from
  the keys of its schema; both are sets, and \<open>sorted\<close> turns a set into its ascending list.
  The configuration is not read.
\<close>

definition check_schema_drift ::
  "table_stats \<Rightarrow> schema_drift_config \<Rightarrow> baseline option \<Rightarrow> check_result list" where
  "check_schema_drift stats config baseline =
     (let current_cols = set (column_names stats) in
      case baseline of
        None \<Rightarrow>
          [passed ''schema_drift'' (table_name stats) (layer stats)
             [Lit (''No baseline schema found for '' @ [CHR 0x27]), FStr (table_name stats),
              Lit (CHR 0x27 # ''. Schema recorded with ''), FInt (int (card current_cols)),
              Lit '' columns. Run again to detect drift.'']
             None None (Some (VList (sorted_list_of_set current_cols))) None]
      | Some b \<Rightarrow>
          let baseline_cols = set (dict_keys (bl_schema b));
              added = current_cols - baseline_cols;
              removed = baseline_cols - current_cols
          in
          if added = {} \<and> removed = {} then
            [passed ''schema_drift'' (table_name stats) (layer stats)
               [Lit ''Schema unchanged. '', FInt (int (card current_cols)),
                Lit '' columns match baseline.'']
               None None None None]
          else
            (if removed \<noteq> {} then
               [failed ''schema_drift'' (table_name stats) (layer stats)
                  [FInt (int (card removed)), Lit '' column(s) removed since last run: '',
                   FList (sorted_list_of_set removed), Lit ''.'']
                  None (Some (VList (sorted_list_of_set baseline_cols)))
                  (Some (VList (sorted_list_of_set current_cols)))
                  (Some (''Removed columns break downstream SELECT * queries and ''
                         @ ''any explicit column references. Verify this was intentional.''))]
             else [])
            @
            (if added \<noteq> {} then
               [warned ''schema_drift'' (table_name stats) (layer stats)
                  [FInt (int (card added)), Lit '' new column(s) detected since last run: '',
                   FList (sorted_list_of_set added), Lit ''.'']
                  None (Some (VList (sorted_list_of_set baseline_cols)))
                  (Some (VList (sorted_list_of_set current_cols)))
                  (Some (''New columns are usually safe, but verify they're ''
                         @ ''intentional and documented.''))]
             else []))"

section \<open>The runner (gaya/runner.py)\<close>

record table_config =
  cfg_table :: string
  cfg_layer :: string
  source :: string
  cfg_null :: "null_config option"
  cfg_required :: "required_config option"
  cfg_unique :: "unique_config option"
  cfg_row_count :: "row_count_config option"
  cfg_volume :: "volume_change_config option"
  cfg_schema :: "schema_config option"
  cfg_drift :: "schema_drift_config option"
  run_null_check :: bool
  run_volume_check :: bool
  run_drift_check :: bool

record run_result =
  rr_table :: string
  rr_layer :: string
  results :: "check_result list"
  baseline_updated :: bool
  rr_error :: "string option"

text \<open>
  One stage of the run: \<open>results.extend\<close> of what a check function returned, with the
  call of that function recorded.
\<close>

definition extend ::
  "string \<Rightarrow> check_result list \<Rightarrow> check_result list \<times> store \<Rightarrow> check_result list \<times> store" where
  "extend fname rs acc = (fst acc @ rs, called (Check fname) (snd acc))"

text \<open>
  \<open>Runner.run\<close> on the store \<open>st\<close>: the result and the store after the run, or the
  exception that \<open>load\<close> or \<open>save\<close> raised. The list of results grows stage by stage; a
  configuration object is truthy whenever it is not \<open>None\<close>.
\<close>

definition run ::
  "(int \<Rightarrow> int \<Rightarrow> real) \<Rightarrow> (string \<Rightarrow> string) \<Rightarrow> store \<Rightarrow> table_stats \<Rightarrow> table_config \<Rightarrow>
   error + (run_result \<times> store)" where
  "run tdiv lower st stats config =
     (case load st (table_name stats) of
        Inl e \<Rightarrow> Inl e
      | Inr (baseline, st0) \<Rightarrow>
          let acc0 = ([], st0);
              acc1 =
                (case cfg_schema config of
                   None \<Rightarrow> acc0
                 | Some sc \<Rightarrow> extend ''check_schema'' (check_schema lower stats sc) acc0);
              acc2 =
                (if run_drift_check config then
                   let drift_config =
                         (case cfg_drift config of
                            Some d \<Rightarrow> d
                          | None \<Rightarrow>
                              \<lparr>baseline_columns =
                                 (case baseline of None \<Rightarrow> [] | Some b \<Rightarrow> dict_keys (bl_schema b))\<rparr>)
                   in extend ''check_schema_drift'' (check_schema_drift stats drift_config baseline) acc1
                 else acc1);
              acc3 =
                (if run_null_check config then
                   let null_cfg = (case cfg_null config of Some n \<Rightarrow> n | None \<Rightarrow> NullConfig)
                   in extend ''check_null_rate'' (check_null_rate tdiv stats null_cfg) acc2
                 else acc2);
              acc4 =
                (case cfg_required config of
                   None \<Rightarrow> acc3
                 | Some rq \<Rightarrow>
                     extend ''check_required_columns'' (check_required_columns tdiv stats rq) acc3);
              acc5 =
                (case cfg_unique config of
                   None \<Rightarrow> acc4
                 | Some u \<Rightarrow> extend ''check_unique'' (check_unique stats u) acc4);
              acc6 =
                (case cfg_row_count config of
                   None \<Rightarrow> acc5
                 | Some rc \<Rightarrow> extend ''check_row_count'' (check_row_count stats rc) acc5);
              acc7 =
                (if run_volume_check config then
                   let volume_cfg =
                         (case cfg_volume config of Some v \<Rightarrow> v | None \<Rightarrow> VolumeChangeConfig)
                   in extend ''check_volume_change''
                        (check_volume_change tdiv stats volume_cfg baseline) acc6
                 else acc6)
          in
          (case save (snd acc7) stats of
             Inl e \<Rightarrow> Inl e
           | Inr (updated, st') \<Rightarrow>
               Inr (\<lparr>rr_table = table_name stats, rr_layer = layer_value (layer stats),
                     results = fst acc7, baseline_updated = updated, rr_error = None\<rparr>, st')))"

section \<open>Test fixtures (tests/fixtures.py)\<close>

definition make_column :: "string \<Rightarrow> string \<Rightarrow> int \<Rightarrow> int \<Rightarrow> int \<Rightarrow> column_stats" where
  "make_column n dt rows nulls distinct_vals =
     \<lparr>col_name = n, dtype = dt, col_row_count = rows, null_count = nulls,
      distinct_count = distinct_vals\<rparr>"

definition make_stats :: "string \<Rightarrow> int \<Rightarrow> column_stats list \<Rightarrow> dict \<Rightarrow> table_stats" where
  "make_stats tname rows cols sch =
     \<lparr>table_name = tname, layer = STAGING, row_count = rows, columns = cols, schema = sch,
      collected_at = ''2026-02-19T10:00:00+00:00''\<rparr>"

definition orders_columns :: "column_stats list" where
  "orders_columns =
     [make_column ''order_id'' ''int'' 1000 0 1000,
      make_column ''customer_id'' ''int'' 1000 0 750,
      make_column ''email'' ''string'' 1000 120 880,
      make_column ''status'' ''string'' 1000 0 5]"

definition orders_schema :: dict where
  "orders_schema = map (\<lambda>c. (col_name c, dtype c)) orders_columns"

definition orders_stats :: table_stats where
  "orders_stats = make_stats ''orders'' 1000 orders_columns orders_schema"

definition make_config :: table_config where
  "make_config =
     \<lparr>cfg_table = ''orders'', cfg_layer = ''staging'', source = ''main_db'',
      cfg_null = Some \<lparr>null_columns = None, null_warn_pct = 0.10, null_fail_pct = 0.25\<rparr>,
      cfg_required = None, cfg_unique = None, cfg_row_count = None,
      cfg_volume = Some \<lparr>vol_warn_pct = 0.20, vol_fail_pct = 0.40\<rparr>,
      cfg_schema = None, cfg_drift = None,
      run_null_check = True, run_volume_check = True, run_drift_check = True\<rparr>"

definition make_baseline :: "string \<Rightarrow> int \<Rightarrow> dict \<Rightarrow> int \<Rightarrow> baseline" where
  "make_baseline tname rows sch n =
     \<lparr>bl_table_name = tname, bl_row_count = rows, bl_schema = sch,
      run_at = ''2026-02-18T10:00:00+00:00'', run_count = n\<rparr>"

text \<open>The file that \<open>save\<close> writes for a baseline, and a directory holding one such file.\<close>

definition baseline_file :: "baseline \<Rightarrow> file_content" where
  "baseline_file b =
     Object \<lparr>j_table_name = Some (bl_table_name b), j_row_count = Some (bl_row_count b),
             j_schema = Some (bl_schema b), j_run_at = Some (run_at b),
             j_run_count = Some (run_count b), j_gaya_version = Some GAYA_VERSION\<rparr>"

definition orders_baseline :: baseline where
  "orders_baseline = make_baseline ''orders'' 1000 orders_schema 1"

definition orders_store :: store where
  "orders_store = \<lparr>files = [path ''orders'' \<mapsto> baseline_file orders_baseline], calls = []\<rparr>"

definition orders_stats_1200 :: table_stats where
  "orders_stats_1200 = make_stats ''orders'' 1200 orders_columns orders_schema"

text \<open>A directory in which the file of table \<open>orders\<close> holds the JSON text \<open>[]\<close>.\<close>

definition list_store :: store where
  "list_store = \<lparr>files = [path ''orders'' \<mapsto> NotObject], calls = []\<rparr>"

definition empty_store :: store where
  "empty_store = \<lparr>files = Map.empty, calls = []\<rparr>"

definition orders_stats_500 :: table_stats where
  "orders_stats_500 = make_stats ''orders'' 500 orders_columns orders_schema"

definition id_column :: column_stats where
  "id_column = make_column ''id'' ''string'' 1000 0 1000"

definition id_stats :: table_stats where
  "id_stats = make_stats ''orders'' 1000 [id_column] [(''id'', ''string'')]"

definition zero_warn_config :: null_config where
  "zero_warn_config = \<lparr>null_columns = None, null_warn_pct = 0, null_fail_pct = 0.25\<rparr>"

definition email_config :: null_config where
  "email_config = \<lparr>null_columns = Some [''email''], null_warn_pct = 0.10, null_fail_pct = 0.25\<rparr>"

definition ghost_config :: null_config where
  "ghost_config = \<lparr>null_columns = Some [''ghost_col''], null_warn_pct = 0.10, null_fail_pct = 0.25\<rparr>"

definition duplicated_stats :: table_stats where
  "duplicated_stats =
     make_stats ''orders'' 1000 [make_column ''order_id'' ''string'' 1000 0 980]
       [(''order_id'', ''string'')]"

definition composite_stats :: table_stats where
  "composite_stats =
     make_stats ''orders'' 1000
       [make_column ''order_id'' ''int'' 1000 0 900,
        make_column ''customer_id'' ''int'' 1000 0 750,
        make_column ''order_id|customer_id'' ''composite'' 1000 0 1000]
       [(''order_id'', ''int''), (''customer_id'', ''int'')]"

definition drift_stats :: table_stats where
  "drift_stats =
     make_stats ''orders'' 1000
       [make_column ''a'' ''int'' 1000 0 1000, make_column ''b'' ''int'' 1000 0 1000,
        make_column ''c'' ''int'' 1000 0 1000]
       [(''a'', ''int''), (''b'', ''int''), (''c'', ''int'')]"

definition drift_baseline :: baseline where
  "drift_baseline = make_baseline ''orders'' 1000 [(''a'', ''int''), (''d'', ''int'')] 1"

definition full_config :: table_config where
  "full_config =
     make_config
       \<lparr>cfg_required := Some \<lparr>required_columns = [''order_id'']\<rparr>,
        cfg_unique := Some \<lparr>unique_columns = [''order_id'']\<rparr>,
        cfg_row_count := Some \<lparr>min_rows = Some 500, max_rows = Some 2000\<rparr>,
        cfg_schema := Some \<lparr>schema_expected = [(''order_id'', ''INT'')]\<rparr>\<rparr>"

text \<open>
  Two calls of \<open>save\<close> in succession, as \<open>test_save_skips_write_when_stats_unchanged\<close> makes
  them; an exception of the first call ends the sequence.
\<close>

definition save_twice :: "store \<Rightarrow> table_stats \<Rightarrow> table_stats \<Rightarrow> error + (bool \<times> bool \<times> store)" where
  "save_twice st stats stats2 =
     (case save st stats of
        Inl e \<Rightarrow> Inl e
      | Inr (written1, st1) \<Rightarrow>
          (case save st1 stats2 of
             Inl e \<Rightarrow> Inl e
           | Inr (written2, st2) \<Rightarrow> Inr (written1, written2, st2)))"

section \<open>Properties of the baseline store\<close>

lemmas fixture_defs = orders_stats_def make_stats_def orders_store_def
  orders_baseline_def make_baseline_def baseline_file_def orders_schema_def orders_columns_def
  make_column_def

text \<open>
  What \<open>load\<close> returns depends on the files alone, and it records its call.
\<close>

lemma load_called:
  "load st tname = Inr (r, st1) \<Longrightarrow> st1 = called (Load tname) st"
  by (auto simp add: load_def Let_def split: option.splits file_content.splits)

lemma load_files:
  assumes "files st2 = files st"
  shows "load st2 tname =
           (case load st tname of Inl e \<Rightarrow> Inl e | Inr (r, s) \<Rightarrow> Inr (r, called (Load tname) st2))"
  using assms
  by (simp add: load_def Let_def split: option.splits file_content.splits)

text \<open>The three outcomes of \<open>save\<close> where \<open>load\<close> returns, and the one where it raises.\<close>

lemma save_unchanged:
  assumes "load st (table_name stats) = Inr (Some b, st1)" and "\<not> has_changed b stats"
  shows "save st stats =
           Inr (False, st\<lparr>calls := calls st @ [Save (table_name stats), Load (table_name stats)]\<rparr>)"
proof -
  have "load (called (Save (table_name stats)) st) (table_name stats)
          = Inr (Some b, called (Load (table_name stats)) (called (Save (table_name stats)) st))"
    using assms(1) load_files [of "called (Save (table_name stats)) st" st "table_name stats"]
    by (simp add: called_def)
  with assms(2) show ?thesis by (simp add: save_def called_def)
qed

lemma save_first:
  assumes "load st (table_name stats) = Inr (None, st1)"
  shows "save st stats =
           Inr (True,
                \<lparr>files = (files st)(path (table_name stats) \<mapsto> Object
                    \<lparr>j_table_name = Some (table_name stats), j_row_count = Some (row_count stats),
                     j_schema = Some (schema stats), j_run_at = Some (collected_at stats),
                     j_run_count = Some 1, j_gaya_version = Some GAYA_VERSION\<rparr>),
                 calls = calls st @ [Save (table_name stats), Load (table_name stats)]\<rparr>)"
proof -
  have "load (called (Save (table_name stats)) st) (table_name stats)
          = Inr (None, called (Load (table_name stats)) (called (Save (table_name stats)) st))"
    using assms load_files [of "called (Save (table_name stats)) st" st "table_name stats"]
    by (simp add: called_def)
  then show ?thesis by (simp add: save_def called_def)
qed

lemma save_changed:
  assumes "load st (table_name stats) = Inr (Some b, st1)" and "has_changed b stats"
  shows "save st stats =
           Inr (True,
                \<lparr>files = (files st)(path (table_name stats) \<mapsto> Object
                    \<lparr>j_table_name = Some (table_name stats), j_row_count = Some (row_count stats),
                     j_schema = Some (schema stats), j_run_at = Some (collected_at stats),
                     j_run_count = Some (run_count b + 1), j_gaya_version = Some GAYA_VERSION\<rparr>),
                 calls = calls st @ [Save (table_name stats), Load (table_name stats)]\<rparr>)"
proof -
  have "load (called (Save (table_name stats)) st) (table_name stats)
          = Inr (Some b, called (Load (table_name stats)) (called (Save (table_name stats)) st))"
    using assms(1) load_files [of "called (Save (table_name stats)) st" st "table_name stats"]
    by (simp add: called_def)
  with assms(2) show ?thesis by (simp add: save_def called_def)
qed

lemma save_raises:
  assumes "load st (table_name stats) = Inl e"
  shows "save st stats = Inl e"
  using assms load_files [of "called (Save (table_name stats)) st" st "table_name stats"]
  by (simp add: save_def called_def)

text \<open>What \<open>save\<close> returns and writes depends on the files alone.\<close>

lemma save_files:
  assumes "files st2 = files st"
  shows "save st2 stats =
           (case save st stats of
              Inl e \<Rightarrow> Inl e
            | Inr (u, s) \<Rightarrow>
                Inr (u, s\<lparr>calls := calls st2 @ [Save (table_name stats), Load (table_name stats)]\<rparr>))"
proof (cases "load st (table_name stats)")
  case (Inl e)
  moreover from Inl assms have "load st2 (table_name stats) = Inl e"
    using load_files [of st2 st "table_name stats"] by simp
  ultimately show ?thesis by (simp add: save_raises)
next
  case (Inr p)
  obtain r s0 where p: "p = (r, s0)" by (cases p)
  from Inr p assms have l2: "load st2 (table_name stats) = Inr (r, called (Load (table_name stats)) st2)"
    using load_files [of st2 st "table_name stats"] by simp
  show ?thesis
  proof (cases r)
    case None
    with Inr p l2 assms show ?thesis by (simp add: save_first)
  next
    case (Some b)
    with Inr p l2 assms show ?thesis
      by (cases "has_changed b stats") (simp_all add: save_changed save_unchanged)
  qed
qed

text \<open>\<open>dict_eq\<close> is the equality of the two key-to-type maps.\<close>

lemma dict_eq_iff: "dict_eq a b \<longleftrightarrow> map_of a = map_of b"
proof
  assume h: "dict_eq a b"
  show "map_of a = map_of b"
  proof
    fix k
    show "map_of a k = map_of b k"
    proof (cases "k \<in> fst ` set a")
      case True
      then have "k \<in> set (dict_keys a)" by (simp add: dict_keys_def)
      with h have "dict_get a k = dict_get b k" unfolding dict_eq_def by blast
      then show ?thesis by (simp add: dict_get_def)
    next
      case False
      with h have "k \<notin> fst ` set b" by (simp add: dict_eq_def dict_keys_def)
      then have "map_of b k = None" by (simp add: map_of_eq_None_iff)
      moreover from False have "map_of a k = None" by (simp add: map_of_eq_None_iff)
      ultimately show ?thesis by simp
    qed
  qed
next
  assume h: "map_of a = map_of b"
  then have "dom (map_of a) = dom (map_of b)" by simp
  then have "fst ` set a = fst ` set b" by (simp add: dom_map_of_conv_image_fst)
  with h show "dict_eq a b" by (simp add: dict_eq_def dict_keys_def dict_get_def)
qed

lemma has_changed_iff:
  "has_changed b stats \<longleftrightarrow>
     bl_row_count b \<noteq> row_count stats \<or> map_of (bl_schema b) \<noteq> map_of (schema stats)"
  by (simp add: has_changed_def dict_eq_iff)

lemma load_after_write:
  "files st (path tname) = Some (Object \<lparr>j_table_name = Some tn, j_row_count = Some rc,
        j_schema = Some sc, j_run_at = Some ra, j_run_count = Some n, j_gaya_version = v\<rparr>) \<Longrightarrow>
   load st tname
     = Inr (Some \<lparr>bl_table_name = tn, bl_row_count = rc, bl_schema = sc, run_at = ra, run_count = n\<rparr>,
            called (Load tname) st)"
  by (simp add: load_def Let_def)

text \<open>
  \<open>load\<close> answers \<open>None\<close> for a missing file, for text that is not JSON and for an object
  that lacks one of the four required keys; \<open>save\<close> then writes with \<open>run_count = 1\<close>
  (lemma \<open>save_first\<close>).
\<close>

lemma load_corrupted:
  assumes "files st (path tname) = None \<or> files st (path tname) = Some NotJson
           \<or> (\<exists>data. files st (path tname) = Some (Object data)
                \<and> (j_table_name data = None \<or> j_row_count data = None
                     \<or> j_schema data = None \<or> j_run_at data = None))"
  shows "load st tname = Inr (None, called (Load tname) st)"
  using assms by (auto simp add: load_def Let_def split: option.splits)

text \<open>
  Where \<open>load\<close> returns, with \<open>existing\<close> what it returns: \<open>save\<close> returns true exactly
  when there is no baseline or the stored baseline differs from the statistics in
  \<open>row_count\<close> or in the schema read as a map from key to type. The file it writes loads
  as the baseline of the statistics with \<open>run_count\<close> one more than the prior one, or 1
  if there was none, and no other file changes; when it returns false no file changes.
\<close>

lemma save_writes_iff_changed:
  assumes "load st (table_name stats) = Inr (existing, st0)"
  shows "case save st stats of
           Inl e \<Rightarrow> False
         | Inr (wrote, st') \<Rightarrow>
             (wrote \<longleftrightarrow>
                (case existing of
                   None \<Rightarrow> True
                 | Some b \<Rightarrow> bl_row_count b \<noteq> row_count stats
                              \<or> map_of (bl_schema b) \<noteq> map_of (schema stats)))
             \<and> (wrote \<longrightarrow>
                  load st' (table_name stats) =
                    Inr (Some \<lparr>bl_table_name = table_name stats, bl_row_count = row_count stats,
                               bl_schema = schema stats, run_at = collected_at stats,
                               run_count = (case existing of None \<Rightarrow> 1 | Some b \<Rightarrow> run_count b + 1)\<rparr>,
                         called (Load (table_name stats)) st')
                  \<and> (\<forall>p. p \<noteq> path (table_name stats) \<longrightarrow> files st' p = files st p))
             \<and> (\<not> wrote \<longrightarrow> files st' = files st)"
proof (cases existing)
  case None
  with assms show ?thesis by (simp add: save_first load_after_write)
next
  case (Some b)
  show ?thesis
  proof (cases "has_changed b stats")
    case True
    with assms Some show ?thesis
      using has_changed_iff [of b stats] by (simp add: save_changed load_after_write)
  next
    case False
    with assms Some show ?thesis
      using has_changed_iff [of b stats] by (simp add: save_unchanged)
  qed
qed

text \<open>
  Where \<open>load\<close> returns: a second \<open>save\<close> with the same table name, \<open>row_count\<close> and schema
  map returns false and writes nothing, and with no baseline before, the first returns
  true.
\<close>

lemma save_twice_skips:
  assumes "load st (table_name stats) = Inr (existing, st0)"
    and "table_name stats2 = table_name stats"
    and "row_count stats2 = row_count stats"
    and "map_of (schema stats2) = map_of (schema stats)"
  shows "case save st stats of
           Inl e \<Rightarrow> False
         | Inr (written1, st1) \<Rightarrow>
             (case save_twice st stats stats2 of
                Inl e \<Rightarrow> False
              | Inr (w1, written2, st2) \<Rightarrow>
                  w1 = written1 \<and> \<not> written2 \<and> files st2 = files st1)
             \<and> (existing = None \<longrightarrow> written1)"
proof -
  obtain w s1 where s: "save st stats = Inr (w, s1)"
    using save_writes_iff_changed [OF assms(1)] by (auto split: sum.splits)
  have l1: "\<exists>b' s. load s1 (table_name stats) = Inr (Some b', s) \<and> \<not> has_changed b' stats2"
  proof (cases existing)
    case None
    with assms s show ?thesis
      by (auto simp add: save_first load_after_write has_changed_iff)
  next
    case (Some b)
    show ?thesis
    proof (cases "has_changed b stats")
      case True
      with assms s Some show ?thesis
        by (auto simp add: save_changed load_after_write has_changed_iff)
    next
      case False
      with assms Some have n: "\<not> has_changed b stats2" by (simp add: has_changed_iff)
      from False assms s Some have "files s1 = files st" by (auto simp add: save_unchanged)
      then have "load s1 (table_name stats) = Inr (Some b, called (Load (table_name stats)) s1)"
        using load_files [of s1 st "table_name stats"] assms(1) Some by simp
      with n show ?thesis by blast
    qed
  qed
  then obtain b' s where "load s1 (table_name stats2) = Inr (Some b', s)" and "\<not> has_changed b' stats2"
    using assms(2) by auto
  then have "save s1 stats2
               = Inr (False, s1\<lparr>calls := calls s1 @ [Save (table_name stats2), Load (table_name stats2)]\<rparr>)"
    by (rule save_unchanged)
  with s have "save_twice st stats stats2
                 = Inr (w, False, s1\<lparr>calls := calls s1 @ [Save (table_name stats2), Load (table_name stats2)]\<rparr>)"
    by (simp add: save_twice_def)
  moreover have "existing = None \<longrightarrow> w"
    using assms(1) s by (auto simp add: save_first)
  ultimately show ?thesis using s by simp
qed

text \<open>
  The two scenarios of the tests: on an empty directory the first \<open>save\<close> writes run 1
  and the second is skipped; on the stored baseline of 1000 rows a \<open>save\<close> of 1200 rows
  writes run 2.
\<close>

lemma save_twice_example:
  "save_twice empty_store orders_stats orders_stats
     = Inr (True, False,
            \<lparr>files = [path ''orders'' \<mapsto>
                        baseline_file (make_baseline ''orders'' 1000 orders_schema 1
                                         \<lparr>run_at := collected_at orders_stats\<rparr>)],
             calls = [Save ''orders'', Load ''orders'', Save ''orders'', Load ''orders'']\<rparr>)"
  by (simp add: save_twice_def save_def load_def called_def has_changed_def dict_eq_def
        empty_store_def fixture_defs Let_def)

lemma save_increments_example:
  "save orders_store orders_stats_1200
     = Inr (True,
            \<lparr>files = [path ''orders'' \<mapsto>
                        baseline_file (make_baseline ''orders'' 1200 orders_schema 2
                                         \<lparr>run_at := collected_at orders_stats_1200\<rparr>)],
             calls = [Save ''orders'', Load ''orders'']\<rparr>)"
  by (simp add: save_def load_def called_def has_changed_def path_def
        orders_stats_1200_def fixture_defs Let_def)

text \<open>
  C7. \<open>load\<close> is to return absent for every stored record, and a later \<open>save\<close> is to write
  with \<open>run_count = 1\<close>. Where the file of the table holds a JSON value that is not an
  object (the text \<open>[]\<close>), \<open>data["table_name"]\<close> raises \<open>TypeError\<close>, which
  \<open>except (KeyError, json.JSONDecodeError)\<close> does not catch: \<open>load\<close> raises, and so does
  \<open>save\<close>, which calls it.
\<close>

theorem load_raises_on_non_object:
  "load list_store ''orders'' = Inl TypeError \<and> save list_store orders_stats = Inl TypeError"
  by (simp add: load_def save_def called_def list_store_def orders_stats_def make_stats_def)

text \<open>
  C1. For every stored state \<open>save\<close> is to write when no baseline exists for the table,
  and to return true. In the directory whose file for table \<open>orders\<close> holds the text
  \<open>[]\<close> no baseline exists for \<open>orders\<close>, and \<open>save\<close> raises \<open>TypeError\<close>: it writes nothing and
  returns nothing.
\<close>

theorem save_raises_on_non_object:
  "files list_store (path (table_name orders_stats)) = Some NotObject
   \<and> save list_store orders_stats = Inl TypeError"
  by (simp add: load_def save_def called_def list_store_def orders_stats_def make_stats_def)

text \<open>
  C8. Two calls of \<open>save\<close> in succession with the same statistics are to write once, the
  first returning true with \<open>run_count = 1\<close> when no baseline existed, the second false.
  In the directory whose file for table \<open>orders\<close> holds the text \<open>[]\<close> the first call raises
  \<open>TypeError\<close>, so the sequence ends without a write and without either return value.
\<close>

theorem save_twice_raises_on_non_object:
  "save_twice list_store orders_stats orders_stats = Inl TypeError"
  by (simp add: save_twice_def load_def save_def called_def list_store_def orders_stats_def
        make_stats_def)

section \<open>Properties of the checks\<close>

lemmas result_defs = passed_def warned_def failed_def

text \<open>
  C2. Without a baseline \<open>check_volume_change\<close> returns one PASS result, whatever the row
  count. With a baseline it returns exactly one result; with \<open>delta = current - previous\<close>
  and \<open>change_pct = |delta| / max(previous, 1)\<close> its status is FAIL when
  \<open>change_pct \<ge> fail_pct\<close>, WARN when \<open>change_pct \<ge> warn_pct\<close> and \<open>change_pct < fail_pct\<close>, and
  PASS otherwise; the direction that a FAIL or WARN message names is \<open>increased\<close> when
  \<open>delta > 0\<close> and \<open>dropped\<close> otherwise.
\<close>

theorem check_volume_change_classification:
  "map status (check_volume_change tdiv stats config None) = [PASS]
   \<and> length (check_volume_change tdiv stats config (Some b)) = 1
   \<and> (\<forall>r \<in> set (check_volume_change tdiv stats config (Some b)).
         (let delta = row_count stats - bl_row_count b;
              pct = tdiv \<bar>delta\<bar> (max (bl_row_count b) 1)
          in (pct \<ge> vol_fail_pct config \<longrightarrow> status r = FAIL)
           \<and> (pct \<ge> vol_warn_pct config \<and> pct < vol_fail_pct config \<longrightarrow> status r = WARN)
           \<and> (\<not> pct \<ge> vol_fail_pct config \<and> \<not> pct \<ge> vol_warn_pct config \<longrightarrow> status r = PASS)
           \<and> (status r \<noteq> PASS \<longrightarrow>
                message r ! 1 = FStr (if delta > 0 then ''increased'' else ''dropped''))))"
  by (simp add: check_volume_change_def change_pct_def direction_def result_defs Let_def)

text \<open>Baseline of 1000 rows, 500 rows now: the change is 0.5, at least the 0.40 of the default, and the result is FAIL, \<open>dropped\<close>.\<close>

theorem check_volume_change_classification_witness:
  "exact_div \<bar>500 - 1000\<bar> (max 1000 1) \<ge> vol_fail_pct VolumeChangeConfig
   \<and> map status (check_volume_change exact_div orders_stats_500 VolumeChangeConfig (Some orders_baseline))
       = [FAIL]
   \<and> map (\<lambda>r. message r ! 1)
         (check_volume_change exact_div orders_stats_500 VolumeChangeConfig (Some orders_baseline))
       = [FStr ''dropped'']"
proof -
  have h: "exact_div \<bar>500 - 1000\<bar> (max 1000 1) \<ge> vol_fail_pct VolumeChangeConfig"
    by (simp add: exact_div_def VolumeChangeConfig_def)
  obtain r where r: "check_volume_change exact_div orders_stats_500 VolumeChangeConfig (Some orders_baseline) = [r]"
    using check_volume_change_classification
            [of exact_div orders_stats_500 VolumeChangeConfig orders_baseline]
    by (auto simp add: length_Suc_conv)
  show ?thesis
    using h r check_volume_change_classification
            [of exact_div orders_stats_500 VolumeChangeConfig orders_baseline]
    by (simp add: Let_def fixture_defs orders_stats_500_def)
qed

lemma null_rate_result_status:
  "status (null_rate_result tdiv stats config (Some c)) =
     (if null_pct tdiv c = 0 then PASS
      else if null_pct tdiv c \<ge> null_fail_pct config then FAIL
      else if null_pct tdiv c \<ge> null_warn_pct config then WARN
      else PASS)"
  by (simp add: null_rate_result_def result_defs Let_def)

lemma null_rate_result_column:
  "result_column (null_rate_result tdiv stats config (Some c)) = Some (col_name c)"
  by (simp add: null_rate_result_def result_defs Let_def)

text \<open>
  C4, as amended. For thresholds with \<open>fail_pct > warn_pct \<ge> 0\<close> and a column that
  resolves, the result of \<open>check_null_rate\<close> for it is PASS when \<open>null_pct\<close> is exactly 0,
  FAIL when \<open>null_pct \<ge> fail_pct\<close>, WARN when \<open>null_pct\<close> is not 0 and
  \<open>warn_pct \<le> null_pct < fail_pct\<close>, and PASS when \<open>null_pct < warn_pct\<close>; the result names
  the column; and \<open>null_pct\<close> is \<open>null_count / row_count\<close>, or 0 when \<open>row_count = 0\<close>.
\<close>

theorem null_rate_classification:
  assumes "null_fail_pct config > null_warn_pct config" and "null_warn_pct config \<ge> 0"
    and "i < length (columns_to_check stats config)"
    and "columns_to_check stats config ! i = Some c"
  shows "(let pct = null_pct tdiv c; r = check_null_rate tdiv stats config ! i in
            (pct = 0 \<longrightarrow> status r = PASS)
          \<and> (pct \<ge> null_fail_pct config \<longrightarrow> status r = FAIL)
          \<and> (pct \<noteq> 0 \<and> pct \<ge> null_warn_pct config \<and> pct < null_fail_pct config \<longrightarrow> status r = WARN)
          \<and> (pct < null_warn_pct config \<longrightarrow> status r = PASS)
          \<and> result_column r = Some (col_name c))
         \<and> null_pct tdiv c
             = (if col_row_count c = 0 then 0 else tdiv (null_count c) (col_row_count c))"
proof -
  have "check_null_rate tdiv stats config ! i = null_rate_result tdiv stats config (Some c)"
    using assms(3,4) by (simp add: check_null_rate_def)
  then show ?thesis
    using assms(1,2)
    by (simp add: Let_def null_rate_result_status null_rate_result_column null_pct_def)
qed

text \<open>Column \<open>email\<close> of the fixture: 120 nulls in 1000 rows, between the thresholds 0.10 and 0.25, gives WARN.\<close>

theorem null_rate_classification_witness:
  "null_fail_pct email_config > null_warn_pct email_config \<and> null_warn_pct email_config \<ge> 0
   \<and> 0 < length (columns_to_check orders_stats email_config)
   \<and> columns_to_check orders_stats email_config ! 0 = Some (make_column ''email'' ''string'' 1000 120 880)
   \<and> null_pct exact_div (make_column ''email'' ''string'' 1000 120 880) = 0.12
   \<and> status (check_null_rate exact_div orders_stats email_config ! 0) = WARN"
proof -
  have h1: "null_fail_pct email_config > null_warn_pct email_config"
    and h2: "null_warn_pct email_config \<ge> 0"
    by (simp_all add: email_config_def)
  have h3: "0 < length (columns_to_check orders_stats email_config)"
    by (simp add: columns_to_check_def email_config_def)
  have h4: "columns_to_check orders_stats email_config ! 0
              = Some (make_column ''email'' ''string'' 1000 120 880)"
    by (simp add: columns_to_check_def email_config_def column_def fixture_defs)
  have h5: "null_pct exact_div (make_column ''email'' ''string'' 1000 120 880) = 0.12"
    by (simp add: null_pct_def exact_div_def make_column_def)
  show ?thesis
    using h1 h2 h3 h4 h5 null_rate_classification [OF h1 h2 h3 h4, of exact_div]
    by (simp add: Let_def email_config_def)
qed

text \<open>
  C4 as stated fails where \<open>warn_pct = 0\<close>: a column without nulls has \<open>null_pct = 0\<close>, which
  lies in the band from \<open>warn_pct\<close> up to \<open>fail_pct\<close>, and its result is PASS, not WARN,
  since the test for exactly 0 comes first.
\<close>

theorem null_rate_warn_band_counterexample:
  "null_fail_pct zero_warn_config > null_warn_pct zero_warn_config
   \<and> null_warn_pct zero_warn_config \<ge> 0
   \<and> columns_to_check id_stats zero_warn_config = [Some id_column]
   \<and> null_pct exact_div id_column \<ge> null_warn_pct zero_warn_config
   \<and> null_pct exact_div id_column < null_fail_pct zero_warn_config
   \<and> map status (check_null_rate exact_div id_stats zero_warn_config) = [PASS]"
  by (simp add: zero_warn_config_def id_stats_def id_column_def make_stats_def make_column_def
        columns_to_check_def check_null_rate_def null_rate_result_def null_pct_def exact_div_def
        result_defs)

text \<open>\<open>str_join\<close> puts the separator before every name but the first.\<close>

lemma str_join_Cons: "str_join sep (x # xs) = x @ concat (map (\<lambda>y. sep @ y) xs)"
  by (induction xs arbitrary: x) simp_all

text \<open>
  C5. \<open>check_unique\<close> returns exactly one result, never a WARN. One configured column
  that resolves: FAIL if and only if \<open>row_count - distinct_count\<close> of that column is
  positive, else PASS, and the FAIL message reports that number of duplicates. Two or more configured columns: the
  column looked up is the one named by the configured names joined with \<open>|\<close> in their
  order; FAIL when it is absent, else the same formula on the synthetic column.
\<close>

theorem check_unique_classification:
  "length (check_unique stats config) = 1
   \<and> (\<forall>r \<in> set (check_unique stats config). status r \<noteq> WARN)
   \<and> (unique_columns config = [n] \<and> column stats n = Some c \<longrightarrow>
        (\<forall>r \<in> set (check_unique stats config).
            status r = (if col_row_count c - distinct_count c > 0 then FAIL else PASS)
            \<and> result_column r = Some n
            \<and> (status r = FAIL \<longrightarrow> message r ! 3 = FIntComma (col_row_count c - distinct_count c))))
   \<and> (length (unique_columns config) \<ge> 2 \<longrightarrow>
        map result_column (check_unique stats config) = [Some (str_join ''|'' (unique_columns config))]
        \<and> (column stats (str_join ''|'' (unique_columns config)) = None \<longrightarrow>
               map status (check_unique stats config) = [FAIL])
        \<and> (column stats (str_join ''|'' (unique_columns config)) = Some c \<longrightarrow>
               map status (check_unique stats config)
                 = [if col_row_count c - distinct_count c > 0 then FAIL else PASS]))"
  by (auto simp add: check_unique_def result_defs Let_def split: option.splits)

text \<open>1000 rows with 980 distinct values: FAIL with 20 duplicates; a composite key whose synthetic column is fully distinct: PASS.\<close>

theorem check_unique_classification_witness:
  "column duplicated_stats ''order_id'' = Some (make_column ''order_id'' ''string'' 1000 0 980)
   \<and> map status (check_unique duplicated_stats \<lparr>unique_columns = [''order_id'']\<rparr>) = [FAIL]
   \<and> map (\<lambda>r. message r ! 3) (check_unique duplicated_stats \<lparr>unique_columns = [''order_id'']\<rparr>)
       = [FIntComma 20]
   \<and> str_join ''|'' [''order_id'', ''customer_id''] = ''order_id|customer_id''
   \<and> column composite_stats ''order_id|customer_id''
       = Some (make_column ''order_id|customer_id'' ''composite'' 1000 0 1000)
   \<and> map status (check_unique composite_stats \<lparr>unique_columns = [''order_id'', ''customer_id'']\<rparr>)
       = [PASS]"
proof -
  have h1: "column duplicated_stats ''order_id'' = Some (make_column ''order_id'' ''string'' 1000 0 980)"
    by (simp add: column_def duplicated_stats_def make_stats_def make_column_def)
  have h2: "str_join ''|'' [''order_id'', ''customer_id''] = ''order_id|customer_id''"
    by simp
  have h3: "column composite_stats ''order_id|customer_id''
              = Some (make_column ''order_id|customer_id'' ''composite'' 1000 0 1000)"
    by (simp add: column_def composite_stats_def make_stats_def make_column_def)
  obtain r where r: "check_unique duplicated_stats \<lparr>unique_columns = [''order_id'']\<rparr> = [r]"
    using h1 check_unique_classification
            [where config = "\<lparr>unique_columns = [''order_id'']\<rparr>" and n = "''order_id''"
               and stats = duplicated_stats and c = "make_column ''order_id'' ''string'' 1000 0 980"]
    by (auto simp add: length_Suc_conv)
  have a: "map status (check_unique duplicated_stats \<lparr>unique_columns = [''order_id'']\<rparr>) = [FAIL]
      \<and> map (\<lambda>r. message r ! 3) (check_unique duplicated_stats \<lparr>unique_columns = [''order_id'']\<rparr>)
          = [FIntComma 20]"
    using h1 r check_unique_classification
            [where config = "\<lparr>unique_columns = [''order_id'']\<rparr>" and n = "''order_id''"
               and stats = duplicated_stats and c = "make_column ''order_id'' ''string'' 1000 0 980"]
    by (simp add: make_column_def)
  have b: "map status (check_unique composite_stats \<lparr>unique_columns = [''order_id'', ''customer_id'']\<rparr>)
       = [PASS]"
    using h2 h3 check_unique_classification
            [where config = "\<lparr>unique_columns = [''order_id'', ''customer_id'']\<rparr>"
               and stats = composite_stats
               and c = "make_column ''order_id|customer_id'' ''composite'' 1000 0 1000"]
    by (simp add: make_column_def)
  show ?thesis using h1 h2 h3 a b by simp
qed

text \<open>
  For a configured subset, \<open>check_null_rate\<close> returns one result per configured name, in
  the order given, and the result of a name that does not resolve is a FAIL whose message
  says that the column does not exist; its column field is the string \<open>unknown\<close>.
\<close>

lemma null_rate_missing:
  assumes "null_columns config = Some names" and "names \<noteq> []"
  shows "length (check_null_rate tdiv stats config) = length names"
    and "i < length names \<Longrightarrow> column stats (names ! i) = None \<Longrightarrow>
         status (check_null_rate tdiv stats config ! i) = FAIL
         \<and> result_column (check_null_rate tdiv stats config ! i) = Some ''unknown''
         \<and> message (check_null_rate tdiv stats config ! i)
             = [Lit ''Column specified in null check does not exist in table.'']"
  using assms
  by (simp_all add: check_null_rate_def columns_to_check_def null_rate_result_def result_defs)

text \<open>
  C9. The FAIL result for a configured name that does not resolve is to echo the name
  in its column field. For the configured name \<open>ghost_col\<close> on the fixture table,
  \<open>check_null_rate\<close> returns FAIL with the column field \<open>unknown\<close>; \<open>check_required_columns\<close>
  on the same name echoes \<open>ghost_col\<close>.
\<close>

theorem null_rate_missing_column_unknown:
  "column orders_stats ''ghost_col'' = None
   \<and> map status (check_null_rate exact_div orders_stats ghost_config) = [FAIL]
   \<and> map result_column (check_null_rate exact_div orders_stats ghost_config) = [Some ''unknown'']
   \<and> map result_column (check_required_columns exact_div orders_stats
                           \<lparr>required_columns = [''ghost_col'']\<rparr>) = [Some ''ghost_col'']"
  by (simp add: check_null_rate_def columns_to_check_def null_rate_result_def ghost_config_def
        check_required_columns_def required_column_result_def
        column_def fixture_defs result_defs)

text \<open>
  C10. \<open>check_null_rate\<close> with \<open>columns\<close> the empty tuple returns what it returns with
  \<open>columns = None\<close>: one result per column of the table, in the table's order.
\<close>

theorem null_rate_empty_columns:
  "check_null_rate tdiv stats (config\<lparr>null_columns := Some []\<rparr>)
     = check_null_rate tdiv stats (config\<lparr>null_columns := None\<rparr>)
   \<and> length (check_null_rate tdiv stats (config\<lparr>null_columns := Some []\<rparr>))
       = length (columns stats)
   \<and> map result_column (check_null_rate tdiv stats (config\<lparr>null_columns := Some []\<rparr>))
       = map (\<lambda>c. Some (col_name c)) (columns stats)"
  by (simp add: check_null_rate_def columns_to_check_def null_rate_result_def result_defs Let_def
        comp_def)

text \<open>On the fixture table both configurations give the four columns.\<close>

theorem null_rate_empty_columns_witness:
  "map result_column (check_null_rate exact_div orders_stats (NullConfig\<lparr>null_columns := Some []\<rparr>))
     = [Some ''order_id'', Some ''customer_id'', Some ''email'', Some ''status'']
   \<and> map result_column (check_null_rate exact_div orders_stats (NullConfig\<lparr>null_columns := None\<rparr>))
     = [Some ''order_id'', Some ''customer_id'', Some ''email'', Some ''status'']"
proof -
  note t = null_rate_empty_columns [of exact_div orders_stats NullConfig]
  have c: "map (\<lambda>c. Some (col_name c)) (columns orders_stats)
             = [Some ''order_id'', Some ''customer_id'', Some ''email'', Some ''status'']"
    by (simp add: fixture_defs)
  from t have e: "check_null_rate exact_div orders_stats (NullConfig\<lparr>null_columns := None\<rparr>)
                    = check_null_rate exact_div orders_stats (NullConfig\<lparr>null_columns := Some []\<rparr>)"
    by simp
  from t have "map result_column (check_null_rate exact_div orders_stats (NullConfig\<lparr>null_columns := Some []\<rparr>))
     = map (\<lambda>c. Some (col_name c)) (columns orders_stats)"
    by blast
  with c e show ?thesis by simp
qed

lemma drift_statuses:
  "map status (check_schema_drift stats config (Some b)) =
     (if set (column_names stats) - set (dict_keys (bl_schema b)) = {}
         \<and> set (dict_keys (bl_schema b)) - set (column_names stats) = {}
      then [PASS]
      else (if set (dict_keys (bl_schema b)) - set (column_names stats) \<noteq> {} then [FAIL] else [])
           @ (if set (column_names stats) - set (dict_keys (bl_schema b)) \<noteq> {} then [WARN] else []))"
  unfolding check_schema_drift_def Let_def by (simp add: result_defs)

lemma drift_fail_message:
  assumes "r \<in> set (check_schema_drift stats config (Some b))" and "status r = FAIL"
  shows "message r ! 2
           = FList (sorted_list_of_set (set (dict_keys (bl_schema b)) - set (column_names stats)))"
  using assms unfolding check_schema_drift_def Let_def
  by (auto simp add: result_defs split: if_splits)

lemma drift_warn_message:
  assumes "r \<in> set (check_schema_drift stats config (Some b))" and "status r = WARN"
  shows "message r ! 2
           = FList (sorted_list_of_set (set (column_names stats) - set (dict_keys (bl_schema b))))"
  using assms unfolding check_schema_drift_def Let_def
  by (auto simp add: result_defs split: if_splits)

lemma sorted_names:
  "sorted (sorted_list_of_set (set xs - set ys)) \<and> distinct (sorted_list_of_set (set xs - set ys))
   \<and> set (sorted_list_of_set (set xs - set ys)) = set xs - set ys"
  by simp

text \<open>
  C3. Without a baseline \<open>check_schema_drift\<close> returns one PASS. With a baseline, where
  \<open>removed\<close> is the baseline's column names without the current ones and \<open>added\<close> the
  current ones without the baseline's: equal name sets give one PASS; \<open>removed\<close> alone
  non-empty gives one FAIL, \<open>added\<close> alone one WARN, both give FAIL then WARN; the FAIL
  message lists exactly the removed names and the WARN message exactly the added names,
  each in ascending order without repetition.
\<close>

theorem check_schema_drift_results:
  "map status (check_schema_drift stats config None) = [PASS]
   \<and> (let cur = set (column_names stats);
           base = set (dict_keys (bl_schema b));
           removed = base - cur;
           added = cur - base;
           rs = check_schema_drift stats config (Some b)
       in (cur = base \<longrightarrow> map status rs = [PASS])
        \<and> (removed \<noteq> {} \<and> added = {} \<longrightarrow> map status rs = [FAIL])
        \<and> (removed = {} \<and> added \<noteq> {} \<longrightarrow> map status rs = [WARN])
        \<and> (removed \<noteq> {} \<and> added \<noteq> {} \<longrightarrow> map status rs = [FAIL, WARN])
        \<and> (\<forall>r \<in> set rs. status r = FAIL \<longrightarrow>
               (\<exists>names. message r ! 2 = FList names \<and> sorted names \<and> distinct names
                         \<and> set names = removed))
        \<and> (\<forall>r \<in> set rs. status r = WARN \<longrightarrow>
               (\<exists>names. message r ! 2 = FList names \<and> sorted names \<and> distinct names
                         \<and> set names = added)))"
proof -
  let ?cur = "set (column_names stats)"
  let ?base = "set (dict_keys (bl_schema b))"
  let ?rs = "check_schema_drift stats config (Some b)"
  have none: "map status (check_schema_drift stats config None) = [PASS]"
    unfolding check_schema_drift_def Let_def by (simp add: result_defs)
  have same: "?cur = ?base \<longrightarrow> map status ?rs = [PASS]"
    by (simp add: drift_statuses)
  have rem: "?base - ?cur \<noteq> {} \<and> ?cur - ?base = {} \<longrightarrow> map status ?rs = [FAIL]"
    unfolding drift_statuses by simp
  have add: "?base - ?cur = {} \<and> ?cur - ?base \<noteq> {} \<longrightarrow> map status ?rs = [WARN]"
    unfolding drift_statuses by simp
  have both: "?base - ?cur \<noteq> {} \<and> ?cur - ?base \<noteq> {} \<longrightarrow> map status ?rs = [FAIL, WARN]"
    unfolding drift_statuses by simp
  have fm: "\<forall>r \<in> set ?rs. status r = FAIL \<longrightarrow>
               (\<exists>names. message r ! 2 = FList names \<and> sorted names \<and> distinct names
                         \<and> set names = ?base - ?cur)"
    using drift_fail_message [of _ stats config b] sorted_names [of "dict_keys (bl_schema b)" "column_names stats"]
    by blast
  have wm: "\<forall>r \<in> set ?rs. status r = WARN \<longrightarrow>
               (\<exists>names. message r ! 2 = FList names \<and> sorted names \<and> distinct names
                         \<and> set names = ?cur - ?base)"
    using drift_warn_message [of _ stats config b] sorted_names [of "column_names stats" "dict_keys (bl_schema b)"]
    by blast
  show ?thesis
    unfolding Let_def using none same rem add both fm wm by blast
qed

text \<open>Current columns a, b, c against baseline columns a, d: FAIL listing d, then WARN listing b and c.\<close>

theorem check_schema_drift_results_witness:
  "set (dict_keys (bl_schema drift_baseline)) - set (column_names drift_stats) = {''d''}
   \<and> set (column_names drift_stats) - set (dict_keys (bl_schema drift_baseline)) = {''b'', ''c''}
   \<and> map status (check_schema_drift drift_stats \<lparr>baseline_columns = []\<rparr> (Some drift_baseline))
       = [FAIL, WARN]
   \<and> map (\<lambda>r. message r ! 2)
         (check_schema_drift drift_stats \<lparr>baseline_columns = []\<rparr> (Some drift_baseline))
       = [FList [''d''], FList [''b'', ''c'']]"
proof -
  have h1: "set (dict_keys (bl_schema drift_baseline)) - set (column_names drift_stats) = {''d''}"
    by (auto simp add: drift_baseline_def drift_stats_def make_baseline_def make_stats_def
          make_column_def dict_keys_def column_names_def)
  have h2: "set (column_names drift_stats) - set (dict_keys (bl_schema drift_baseline)) = {''b'', ''c''}"
    by (auto simp add: drift_baseline_def drift_stats_def make_baseline_def make_stats_def
          make_column_def dict_keys_def column_names_def)
  have s1: "sorted_list_of_set {''d''} = [''d'']" by simp
  have s2: "sorted_list_of_set {''b'', ''c''} = [''b'', ''c'']" by simp
  have ne: "set (dict_keys (bl_schema drift_baseline)) - set (column_names drift_stats) \<noteq> {}
            \<and> set (column_names drift_stats) - set (dict_keys (bl_schema drift_baseline)) \<noteq> {}"
    unfolding h1 h2 by simp
  have st: "map status (check_schema_drift drift_stats \<lparr>baseline_columns = []\<rparr> (Some drift_baseline))
       = [FAIL, WARN]"
    using ne check_schema_drift_results
                [of drift_stats "\<lparr>baseline_columns = []\<rparr>" drift_baseline, unfolded Let_def]
    by blast
  have ms: "map (\<lambda>r. message r ! 2)
         (check_schema_drift drift_stats \<lparr>baseline_columns = []\<rparr> (Some drift_baseline))
       = [FList [''d''], FList [''b'', ''c'']]"
    by (simp add: check_schema_drift_def Let_def result_defs drift_baseline_def drift_stats_def
          make_baseline_def make_stats_def make_column_def dict_keys_def column_names_def)
  show ?thesis using h1 h2 st ms by simp
qed

section \<open>Properties of the runner\<close>

text \<open>When \<open>load\<close> raises, so does the run.\<close>

lemma run_raises:
  "load st (table_name stats) = Inl e \<Longrightarrow> run tdiv lower st stats config = Inl e"
  by (simp add: run_def)

text \<open>
  Where \<open>load\<close> returns, the run is one \<open>save\<close> on the store that the stages leave: they
  have appended their results in order, recorded their calls and left the files alone.
\<close>

lemma run_unfolded:
  assumes "load st (table_name stats) = Inr (baseline, st0)"
  shows "\<exists>acc.
           run tdiv lower st stats config =
             (case save (snd acc) stats of
                Inl e \<Rightarrow> Inl e
              | Inr (updated, st') \<Rightarrow>
                  Inr (\<lparr>rr_table = table_name stats, rr_layer = layer_value (layer stats),
                        results = fst acc, baseline_updated = updated, rr_error = None\<rparr>, st'))
           \<and> fst acc =
               (case cfg_schema config of None \<Rightarrow> [] | Some sc \<Rightarrow> check_schema lower stats sc)
               @ (if run_drift_check config then
                    check_schema_drift stats
                      (case cfg_drift config of
                         Some d \<Rightarrow> d
                       | None \<Rightarrow>
                           \<lparr>baseline_columns =
                              (case baseline of None \<Rightarrow> [] | Some b \<Rightarrow> dict_keys (bl_schema b))\<rparr>)
                      baseline
                  else [])
               @ (if run_null_check config then
                    check_null_rate tdiv stats
                      (case cfg_null config of Some n \<Rightarrow> n | None \<Rightarrow> NullConfig)
                  else [])
               @ (case cfg_required config of
                    None \<Rightarrow> [] | Some rq \<Rightarrow> check_required_columns tdiv stats rq)
               @ (case cfg_unique config of None \<Rightarrow> [] | Some u \<Rightarrow> check_unique stats u)
               @ (case cfg_row_count config of None \<Rightarrow> [] | Some rc \<Rightarrow> check_row_count stats rc)
               @ (if run_volume_check config then
                    check_volume_change tdiv stats
                      (case cfg_volume config of Some v \<Rightarrow> v | None \<Rightarrow> VolumeChangeConfig)
                      baseline
                  else [])
           \<and> files (snd acc) = files st
           \<and> calls (snd acc) =
               calls st @ [Load (table_name stats)]
               @ (case cfg_schema config of None \<Rightarrow> [] | Some sc \<Rightarrow> [Check ''check_schema''])
               @ (if run_drift_check config then [Check ''check_schema_drift''] else [])
               @ (if run_null_check config then [Check ''check_null_rate''] else [])
               @ (case cfg_required config of None \<Rightarrow> [] | Some rq \<Rightarrow> [Check ''check_required_columns''])
               @ (case cfg_unique config of None \<Rightarrow> [] | Some u \<Rightarrow> [Check ''check_unique''])
               @ (case cfg_row_count config of None \<Rightarrow> [] | Some rc \<Rightarrow> [Check ''check_row_count''])
               @ (if run_volume_check config then [Check ''check_volume_change''] else [])"
proof -
  have st0: "st0 = called (Load (table_name stats)) st"
    using assms by (rule load_called)
  show ?thesis
    apply (subst run_def)
    apply (simp only: assms sum.case prod.case Let_def)
    apply (rule exI)
    apply (rule conjI)
     apply (rule refl)
    apply (simp add: extend_def called_def st0 split: option.splits)
    done
qed

lemma save_returns:
  assumes "load st (table_name stats) = Inr (existing, st0)"
  shows "\<exists>updated st1. save st stats = Inr (updated, st1)"
  using save_writes_iff_changed [OF assms] by (auto split: sum.splits)

lemma run_returns:
  assumes "load st (table_name stats) = Inr (baseline, st0)"
  shows "\<exists>r st' updated st1.
           run tdiv lower st stats config = Inr (r, st')
           \<and> save st stats = Inr (updated, st1)
           \<and> results r =
               (case cfg_schema config of None \<Rightarrow> [] | Some sc \<Rightarrow> check_schema lower stats sc)
               @ (if run_drift_check config then
                    check_schema_drift stats
                      (case cfg_drift config of
                         Some d \<Rightarrow> d
                       | None \<Rightarrow>
                           \<lparr>baseline_columns =
                              (case baseline of None \<Rightarrow> [] | Some b \<Rightarrow> dict_keys (bl_schema b))\<rparr>)
                      baseline
                  else [])
               @ (if run_null_check config then
                    check_null_rate tdiv stats
                      (case cfg_null config of Some n \<Rightarrow> n | None \<Rightarrow> NullConfig)
                  else [])
               @ (case cfg_required config of
                    None \<Rightarrow> [] | Some rq \<Rightarrow> check_required_columns tdiv stats rq)
               @ (case cfg_unique config of None \<Rightarrow> [] | Some u \<Rightarrow> check_unique stats u)
               @ (case cfg_row_count config of None \<Rightarrow> [] | Some rc \<Rightarrow> check_row_count stats rc)
               @ (if run_volume_check config then
                    check_volume_change tdiv stats
                      (case cfg_volume config of Some v \<Rightarrow> v | None \<Rightarrow> VolumeChangeConfig)
                      baseline
                  else [])
           \<and> calls st' =
               calls st @ [Load (table_name stats)]
               @ (case cfg_schema config of None \<Rightarrow> [] | Some sc \<Rightarrow> [Check ''check_schema''])
               @ (if run_drift_check config then [Check ''check_schema_drift''] else [])
               @ (if run_null_check config then [Check ''check_null_rate''] else [])
               @ (case cfg_required config of None \<Rightarrow> [] | Some rq \<Rightarrow> [Check ''check_required_columns''])
               @ (case cfg_unique config of None \<Rightarrow> [] | Some u \<Rightarrow> [Check ''check_unique''])
               @ (case cfg_row_count config of None \<Rightarrow> [] | Some rc \<Rightarrow> [Check ''check_row_count''])
               @ (if run_volume_check config then [Check ''check_volume_change''] else [])
               @ [Save (table_name stats), Load (table_name stats)]
           \<and> baseline_updated r = updated \<and> files st' = files st1
           \<and> rr_table r = table_name stats \<and> rr_layer r = layer_value (layer stats)
           \<and> rr_error r = None"
proof -
  obtain acc where run: "run tdiv lower st stats config =
             (case save (snd acc) stats of
                Inl e \<Rightarrow> Inl e
              | Inr (updated, st') \<Rightarrow>
                  Inr (\<lparr>rr_table = table_name stats, rr_layer = layer_value (layer stats),
                        results = fst acc, baseline_updated = updated, rr_error = None\<rparr>, st'))"
    and res: "fst acc =
               (case cfg_schema config of None \<Rightarrow> [] | Some sc \<Rightarrow> check_schema lower stats sc)
               @ (if run_drift_check config then
                    check_schema_drift stats
                      (case cfg_drift config of
                         Some d \<Rightarrow> d
                       | None \<Rightarrow>
                           \<lparr>baseline_columns =
                              (case baseline of None \<Rightarrow> [] | Some b \<Rightarrow> dict_keys (bl_schema b))\<rparr>)
                      baseline
                  else [])
               @ (if run_null_check config then
                    check_null_rate tdiv stats
                      (case cfg_null config of Some n \<Rightarrow> n | None \<Rightarrow> NullConfig)
                  else [])
               @ (case cfg_required config of
                    None \<Rightarrow> [] | Some rq \<Rightarrow> check_required_columns tdiv stats rq)
               @ (case cfg_unique config of None \<Rightarrow> [] | Some u \<Rightarrow> check_unique stats u)
               @ (case cfg_row_count config of None \<Rightarrow> [] | Some rc \<Rightarrow> check_row_count stats rc)
               @ (if run_volume_check config then
                    check_volume_change tdiv stats
                      (case cfg_volume config of Some v \<Rightarrow> v | None \<Rightarrow> VolumeChangeConfig)
                      baseline
                  else [])"
    and fl: "files (snd acc) = files st"
    and cl: "calls (snd acc) @ [Save (table_name stats), Load (table_name stats)] =
               calls st @ [Load (table_name stats)]
               @ (case cfg_schema config of None \<Rightarrow> [] | Some sc \<Rightarrow> [Check ''check_schema''])
               @ (if run_drift_check config then [Check ''check_schema_drift''] else [])
               @ (if run_null_check config then [Check ''check_null_rate''] else [])
               @ (case cfg_required config of None \<Rightarrow> [] | Some rq \<Rightarrow> [Check ''check_required_columns''])
               @ (case cfg_unique config of None \<Rightarrow> [] | Some u \<Rightarrow> [Check ''check_unique''])
               @ (case cfg_row_count config of None \<Rightarrow> [] | Some rc \<Rightarrow> [Check ''check_row_count''])
               @ (if run_volume_check config then [Check ''check_volume_change''] else [])
               @ [Save (table_name stats), Load (table_name stats)]"
    using run_unfolded [OF assms, of tdiv lower config] by auto
  obtain updated st1 where sv: "save st stats = Inr (updated, st1)"
    using save_returns [OF assms] by blast
  have sv2: "save (snd acc) stats
               = Inr (updated,
                      st1\<lparr>calls := calls (snd acc) @ [Save (table_name stats), Load (table_name stats)]\<rparr>)"
    using save_files [OF fl, of stats] sv by simp
  show ?thesis
    unfolding run sv2 using sv res cl by simp
qed

text \<open>
  C6, as amended. Where the file of the table is missing, is not JSON, lacks a required
  key or is an object holding values of the types \<open>save\<close> writes (the stores of this model
  on which \<open>load\<close> returns), \<open>run\<close> returns a result whose list is the concatenation, in this
  order, of what the stages schema, schema-drift, null-rate, required-columns, unique,
  row-count and volume-change return, a stage that is not configured or is switched off
  contributing nothing. The calls of a run are, in order: \<open>load\<close> once, the check functions
  of the stages that run, then \<open>save\<close> once, which calls \<open>load\<close> once more. The drift and
  the volume-change stage receive the baseline that the first \<open>load\<close> returned. The files
  after the run and \<open>baseline_updated\<close> are those of one \<open>save\<close> on the store as the run
  found it, whatever the checks returned.
\<close>

theorem run_stage_order:
  assumes "load st (table_name stats) = Inr (baseline, st0)"
  shows "case run tdiv lower st stats config of
           Inl e \<Rightarrow> False
         | Inr (r, st') \<Rightarrow>
             results r =
               (case cfg_schema config of None \<Rightarrow> [] | Some sc \<Rightarrow> check_schema lower stats sc)
               @ (if run_drift_check config then
                    check_schema_drift stats
                      (case cfg_drift config of
                         Some d \<Rightarrow> d
                       | None \<Rightarrow>
                           \<lparr>baseline_columns =
                              (case baseline of None \<Rightarrow> [] | Some b \<Rightarrow> dict_keys (bl_schema b))\<rparr>)
                      baseline
                  else [])
               @ (if run_null_check config then
                    check_null_rate tdiv stats
                      (case cfg_null config of Some n \<Rightarrow> n | None \<Rightarrow> NullConfig)
                  else [])
               @ (case cfg_required config of
                    None \<Rightarrow> [] | Some rq \<Rightarrow> check_required_columns tdiv stats rq)
               @ (case cfg_unique config of None \<Rightarrow> [] | Some u \<Rightarrow> check_unique stats u)
               @ (case cfg_row_count config of None \<Rightarrow> [] | Some rc \<Rightarrow> check_row_count stats rc)
               @ (if run_volume_check config then
                    check_volume_change tdiv stats
                      (case cfg_volume config of Some v \<Rightarrow> v | None \<Rightarrow> VolumeChangeConfig)
                      baseline
                  else [])
             \<and> calls st' =
               calls st @ [Load (table_name stats)]
               @ (case cfg_schema config of None \<Rightarrow> [] | Some sc \<Rightarrow> [Check ''check_schema''])
               @ (if run_drift_check config then [Check ''check_schema_drift''] else [])
               @ (if run_null_check config then [Check ''check_null_rate''] else [])
               @ (case cfg_required config of None \<Rightarrow> [] | Some rq \<Rightarrow> [Check ''check_required_columns''])
               @ (case cfg_unique config of None \<Rightarrow> [] | Some u \<Rightarrow> [Check ''check_unique''])
               @ (case cfg_row_count config of None \<Rightarrow> [] | Some rc \<Rightarrow> [Check ''check_row_count''])
               @ (if run_volume_check config then [Check ''check_volume_change''] else [])
               @ [Save (table_name stats), Load (table_name stats)]
             \<and> (case save st stats of
                  Inl e \<Rightarrow> False
                | Inr (updated, st1) \<Rightarrow> baseline_updated r = updated \<and> files st' = files st1)
             \<and> rr_table r = table_name stats \<and> rr_layer r = layer_value (layer stats)
             \<and> rr_error r = None"
proof -
  obtain r st' updated st1 where "run tdiv lower st stats config = Inr (r, st')"
    and "save st stats = Inr (updated, st1)"
    and "results r =
               (case cfg_schema config of None \<Rightarrow> [] | Some sc \<Rightarrow> check_schema lower stats sc)
               @ (if run_drift_check config then
                    check_schema_drift stats
                      (case cfg_drift config of
                         Some d \<Rightarrow> d
                       | None \<Rightarrow>
                           \<lparr>baseline_columns =
                              (case baseline of None \<Rightarrow> [] | Some b \<Rightarrow> dict_keys (bl_schema b))\<rparr>)
                      baseline
                  else [])
               @ (if run_null_check config then
                    check_null_rate tdiv stats
                      (case cfg_null config of Some n \<Rightarrow> n | None \<Rightarrow> NullConfig)
                  else [])
               @ (case cfg_required config of
                    None \<Rightarrow> [] | Some rq \<Rightarrow> check_required_columns tdiv stats rq)
               @ (case cfg_unique config of None \<Rightarrow> [] | Some u \<Rightarrow> check_unique stats u)
               @ (case cfg_row_count config of None \<Rightarrow> [] | Some rc \<Rightarrow> check_row_count stats rc)
               @ (if run_volume_check config then
                    check_volume_change tdiv stats
                      (case cfg_volume config of Some v \<Rightarrow> v | None \<Rightarrow> VolumeChangeConfig)
                      baseline
                  else [])"
    and "calls st' =
               calls st @ [Load (table_name stats)]
               @ (case cfg_schema config of None \<Rightarrow> [] | Some sc \<Rightarrow> [Check ''check_schema''])
               @ (if run_drift_check config then [Check ''check_schema_drift''] else [])
               @ (if run_null_check config then [Check ''check_null_rate''] else [])
               @ (case cfg_required config of None \<Rightarrow> [] | Some rq \<Rightarrow> [Check ''check_required_columns''])
               @ (case cfg_unique config of None \<Rightarrow> [] | Some u \<Rightarrow> [Check ''check_unique''])
               @ (case cfg_row_count config of None \<Rightarrow> [] | Some rc \<Rightarrow> [Check ''check_row_count''])
               @ (if run_volume_check config then [Check ''check_volume_change''] else [])
               @ [Save (table_name stats), Load (table_name stats)]"
    and "baseline_updated r = updated" and "files st' = files st1"
    and "rr_table r = table_name stats" and "rr_layer r = layer_value (layer stats)"
    and "rr_error r = None"
    using run_returns [OF assms, of tdiv lower config] by blast
  then show ?thesis by simp
qed

text \<open>
  C6 as stated fails: the baseline is not loaded exactly once per run. In the run of the
  fixture configuration on the stored baseline of table \<open>orders\<close>, \<open>load\<close> is executed twice,
  by \<open>run\<close> before the checks and by \<open>save\<close> after them.
\<close>

theorem run_loads_twice_counterexample:
  "map_sum id (calls \<circ> snd) (run exact_div ascii_lower orders_store orders_stats make_config)
     = Inr [Load ''orders'', Check ''check_schema_drift'', Check ''check_null_rate'',
            Check ''check_volume_change'', Save ''orders'', Load ''orders'']
   \<and> map_sum id (filter ((=) (Load ''orders'')) \<circ> calls \<circ> snd)
         (run exact_div ascii_lower orders_store orders_stats make_config)
     = Inr [Load ''orders'', Load ''orders'']"
proof -
  have h: "load orders_store (table_name orders_stats)
             = Inr (Some orders_baseline, called (Load ''orders'') orders_store)"
    by (simp add: load_def fixture_defs path_def called_def)
  obtain r st' where "run exact_div ascii_lower orders_store orders_stats make_config = Inr (r, st')"
    and "calls st' =
           calls orders_store @ [Load (table_name orders_stats)]
           @ (case cfg_schema make_config of None \<Rightarrow> [] | Some sc \<Rightarrow> [Check ''check_schema''])
           @ (if run_drift_check make_config then [Check ''check_schema_drift''] else [])
           @ (if run_null_check make_config then [Check ''check_null_rate''] else [])
           @ (case cfg_required make_config of None \<Rightarrow> [] | Some rq \<Rightarrow> [Check ''check_required_columns''])
           @ (case cfg_unique make_config of None \<Rightarrow> [] | Some u \<Rightarrow> [Check ''check_unique''])
           @ (case cfg_row_count make_config of None \<Rightarrow> [] | Some rc \<Rightarrow> [Check ''check_row_count''])
           @ (if run_volume_check make_config then [Check ''check_volume_change''] else [])
           @ [Save (table_name orders_stats), Load (table_name orders_stats)]"
    using run_returns [OF h, of exact_div ascii_lower make_config] by blast
  then show ?thesis
    by (simp add: make_config_def orders_stats_def make_stats_def orders_store_def)
qed

lemma ascii_lower_INT: "ascii_lower ''INT'' = ''int''"
  by code_simp

lemma ascii_lower_int: "ascii_lower ''int'' = ''int''"
  by code_simp

text \<open>
  A run with every stage configured, on the fixture table with 500 rows against the
  stored baseline of 1000 rows: ten results in stage order, the ten calls in order, the
  volume change fails, and the baseline is rewritten as run 2 all the same.
\<close>

theorem run_stage_order_witness:
  "load orders_store (table_name orders_stats_500)
     = Inr (Some orders_baseline, called (Load ''orders'') orders_store)
   \<and> (case run exact_div ascii_lower orders_store orders_stats_500 full_config of
        Inl e \<Rightarrow> False
      | Inr (r, st') \<Rightarrow>
          map (\<lambda>c. (check c, status c)) (results r)
            = [(''schema'', PASS), (''schema_drift'', PASS),
               (''null_rate'', PASS), (''null_rate'', PASS), (''null_rate'', WARN), (''null_rate'', PASS),
               (''required_columns'', PASS), (''unique'', PASS), (''row_count'', PASS),
               (''volume_change'', FAIL)]
          \<and> calls st'
              = [Load ''orders'', Check ''check_schema'', Check ''check_schema_drift'',
                 Check ''check_null_rate'', Check ''check_required_columns'', Check ''check_unique'',
                 Check ''check_row_count'', Check ''check_volume_change'',
                 Save ''orders'', Load ''orders'']
          \<and> baseline_updated r
          \<and> files st' (path ''orders'')
              = Some (baseline_file (make_baseline ''orders'' 500 orders_schema 2
                                       \<lparr>run_at := collected_at orders_stats_500\<rparr>)))"
proof -
  have h: "load orders_store (table_name orders_stats_500)
             = Inr (Some orders_baseline, called (Load ''orders'') orders_store)"
    by (simp add: load_def fixture_defs orders_stats_500_def path_def called_def)
  have ch: "has_changed orders_baseline orders_stats_500"
    by (simp add: has_changed_def fixture_defs orders_stats_500_def)
  have sv: "save orders_store orders_stats_500
              = Inr (True,
                     \<lparr>files = (files orders_store)(path ''orders'' \<mapsto>
                        baseline_file (make_baseline ''orders'' 500 orders_schema 2
                                         \<lparr>run_at := collected_at orders_stats_500\<rparr>)),
                      calls = [Save ''orders'', Load ''orders'']\<rparr>)"
    using save_changed [OF h ch]
    by (simp add: fixture_defs orders_stats_500_def)
  have c1: "map (\<lambda>c. (check c, status c))
              (check_schema ascii_lower orders_stats_500 \<lparr>schema_expected = [(''order_id'', ''INT'')]\<rparr>)
            = [(''schema'', PASS)]"
    by (simp add: check_schema_def schema_result_def dict_get_def fixture_defs
          orders_stats_500_def ascii_lower_INT ascii_lower_int result_defs Let_def)
  have c2: "map (\<lambda>c. (check c, status c))
              (check_schema_drift orders_stats_500 \<lparr>baseline_columns = dict_keys orders_schema\<rparr>
                 (Some orders_baseline))
            = [(''schema_drift'', PASS)]"
    by (simp add: check_schema_drift_def column_names_def dict_keys_def fixture_defs
          orders_stats_500_def result_defs Let_def)
  have c3: "map (\<lambda>c. (check c, status c))
              (check_null_rate exact_div orders_stats_500
                 \<lparr>null_columns = None, null_warn_pct = 0.10, null_fail_pct = 0.25\<rparr>)
            = [(''null_rate'', PASS), (''null_rate'', PASS), (''null_rate'', WARN), (''null_rate'', PASS)]"
    by (simp add: check_null_rate_def columns_to_check_def null_rate_result_def null_pct_def
          exact_div_def fixture_defs orders_stats_500_def result_defs Let_def)
  have c4: "map (\<lambda>c. (check c, status c))
              (check_required_columns exact_div orders_stats_500 \<lparr>required_columns = [''order_id'']\<rparr>)
            = [(''required_columns'', PASS)]"
    by (simp add: check_required_columns_def required_column_result_def column_def
          fixture_defs orders_stats_500_def result_defs Let_def)
  have c5: "map (\<lambda>c. (check c, status c))
              (check_unique orders_stats_500 \<lparr>unique_columns = [''order_id'']\<rparr>)
            = [(''unique'', PASS)]"
    by (simp add: check_unique_def column_def fixture_defs orders_stats_500_def result_defs Let_def)
  have c6: "map (\<lambda>c. (check c, status c))
              (check_row_count orders_stats_500 \<lparr>min_rows = Some 500, max_rows = Some 2000\<rparr>)
            = [(''row_count'', PASS)]"
    by (simp add: check_row_count_def fixture_defs orders_stats_500_def result_defs Let_def)
  have c7: "map (\<lambda>c. (check c, status c))
              (check_volume_change exact_div orders_stats_500
                 \<lparr>vol_warn_pct = 0.20, vol_fail_pct = 0.40\<rparr> (Some orders_baseline))
            = [(''volume_change'', FAIL)]"
    by (simp add: check_volume_change_def change_pct_def exact_div_def fixture_defs
          orders_stats_500_def result_defs Let_def)
  have bs: "bl_schema orders_baseline = orders_schema"
    by (simp add: orders_baseline_def make_baseline_def)
  have tn: "table_name orders_stats_500 = ''orders''" and oc: "calls orders_store = []"
    by (simp_all add: orders_stats_500_def make_stats_def orders_store_def)
  show ?thesis
    using h run_stage_order [OF h, where tdiv = exact_div and lower = ascii_lower
                                   and config = full_config]
          sv c1 c2 c3 c4 c5 c6 c7 bs tn oc
    by (simp add: full_config_def make_config_def split: sum.splits prod.splits)
qed

end
